theory Spec2Isabelle
  imports Complex_Main "HOL-Library.Monad_Syntax"
begin

section \<open>JavaScript values\<close>

text \<open>
  The normalizers of the plan UI and the request adapter work on values whose static type
  is \<^verbatim>\<open>unknown\<close> or \<^verbatim>\<open>any\<close>: the results of tool calls and parsed request bodies.
  They are modelled by a datatype of JSON-like JavaScript values.

  A number is a finite value, NaN or one of the infinities. The finite values are the
  rationals, the doubles among them, and the two zeros are one value. A number that the
  program computes from a text is rounded to a double.

  A string is a list of characters (code units below 256). An object is the list of its
  own enumerable string-keyed properties in enumeration order; reading a key takes the
  first entry with that key.
\<close>

datatype jsnum = Fin rat | NaN | PosInf | NegInf

datatype jsval =
    JUndefined
  | JNull
  | JBool bool
  | JNum jsnum
  | JStr string
  | JArr "jsval list"
  | JObj "(string \<times> jsval) list"

datatype error = TypeError | SyntaxError

text \<open>\<^verbatim>\<open>!!v\<close>: undefined, null, false, 0, NaN and the empty string are falsy.\<close>

fun truthy :: "jsval \<Rightarrow> bool" where
  "truthy JUndefined = False"
| "truthy JNull = False"
| "truthy (JBool b) = b"
| "truthy (JNum n) = (n \<noteq> NaN \<and> n \<noteq> Fin 0)"
| "truthy (JStr s) = (s \<noteq> [])"
| "truthy (JArr xs) = True"
| "truthy (JObj kvs) = True"

text \<open>\<^verbatim>\<open>v == null\<close>: the values on which \<^verbatim>\<open>??\<close> and \<^verbatim>\<open>?.\<close> short-circuit and on which a
  property read throws.\<close>

fun nullish :: "jsval \<Rightarrow> bool" where
  "nullish JUndefined = True"
| "nullish JNull = True"
| "nullish _ = False"

text \<open>
  \<^verbatim>\<open>v.k\<close> on a value that is neither null nor undefined, for the property names the
  code reads (description, status, steps, plan, index, role, content, type, text, name,
  parameters, messages, tools): an object yields its entry, and an array, a string, a number
  or a boolean has no property of these names.
\<close>

fun read_prop :: "jsval \<Rightarrow> string \<Rightarrow> jsval" where
  "read_prop (JObj kvs) k = (case map_of kvs k of Some v \<Rightarrow> v | None \<Rightarrow> JUndefined)"
| "read_prop _ k = JUndefined"

text \<open>\<^verbatim>\<open>v.k\<close> on any value: reading a property of null or undefined throws a TypeError.\<close>

definition get_prop :: "jsval \<Rightarrow> string \<Rightarrow> error + jsval" where
  "get_prop v k = (if nullish v then Inl TypeError else Inr (read_prop v k))"

text \<open>\<^verbatim>\<open>v?.k\<close>\<close>

definition opt_prop :: "jsval \<Rightarrow> string \<Rightarrow> jsval" where
  "opt_prop v k = (if nullish v then JUndefined else read_prop v k)"

subsection \<open>Numbers\<close>

fun isFinite :: "jsnum \<Rightarrow> bool" where
  "isFinite (Fin r) = True"
| "isFinite _ = False"

text \<open>\<^verbatim>\<open>a < b\<close> and \<^verbatim>\<open>a >= b\<close> on numbers; every comparison with NaN is false.\<close>

fun num_lt :: "jsnum \<Rightarrow> jsnum \<Rightarrow> bool" where
  "num_lt NaN _ = False"
| "num_lt _ NaN = False"
| "num_lt (Fin a) (Fin b) = (a < b)"
| "num_lt (Fin a) PosInf = True"
| "num_lt (Fin a) NegInf = False"
| "num_lt PosInf _ = False"
| "num_lt NegInf NegInf = False"
| "num_lt NegInf _ = True"

fun num_ge :: "jsnum \<Rightarrow> jsnum \<Rightarrow> bool" where
  "num_ge NaN _ = False"
| "num_ge _ NaN = False"
| "num_ge a b = (\<not> num_lt a b)"

subsection \<open>The host's built-in functions\<close>

text \<open>
  \<^verbatim>\<open>JSON.parse\<close>, \<^verbatim>\<open>JSON.stringify\<close> and the conversion of a number to a string belong
  to the JavaScript engine, not to this program; they are parameters of the model.
  \<open>JSON_parse\<close> returns \<open>None\<close> where \<^verbatim>\<open>JSON.parse\<close> throws a SyntaxError.
\<close>

record platform =
  JSON_parse :: "string \<Rightarrow> jsval option"
  JSON_stringify :: "jsval \<Rightarrow> string"
  Number_toString :: "jsnum \<Rightarrow> string"

text \<open>
  The one fact about \<^verbatim>\<open>JSON.parse\<close> that the program relies on: a text that parses to a
  string is a quoted string literal, so the string it denotes is shorter than the text.
\<close>

definition shrinks :: "platform \<Rightarrow> bool" where
  "shrinks pf \<longleftrightarrow> (\<forall>s t. JSON_parse pf s = Some (JStr t) \<longrightarrow> length t < length s)"

text \<open>
  \<^verbatim>\<open>String(v)\<close>, and \<^verbatim>\<open>xs.join(sep)\<close> on an array of values. An array converts by joining
  its elements with commas; in a join a null or undefined element gives the empty string.
  An object converts through its \<^verbatim>\<open>toString\<close>: the inherited one gives
  \<^verbatim>\<open>[object Object]\<close>, but an own property of that name holds a value that cannot be
  called, and then the conversion throws a TypeError (\<^verbatim>\<open>valueOf\<close> never gives a
  primitive for such an object).
\<close>

fun toString :: "platform \<Rightarrow> jsval \<Rightarrow> error + string"
  and joinElements :: "platform \<Rightarrow> string \<Rightarrow> jsval list \<Rightarrow> error + string" where
  "toString pf JUndefined = Inr ''undefined''"
| "toString pf JNull = Inr ''null''"
| "toString pf (JBool b) = Inr (if b then ''true'' else ''false'')"
| "toString pf (JNum n) = Inr (Number_toString pf n)"
| "toString pf (JStr s) = Inr s"
| "toString pf (JArr xs) = joinElements pf '','' xs"
| "toString pf (JObj kvs) =
     (if map_of kvs ''toString'' \<noteq> None then Inl TypeError else Inr ''[object Object]'')"
| "joinElements pf sep [] = Inr []"
| "joinElements pf sep (x # xs) =
     (case (if nullish x then Inr [] else toString pf x) of
        Inl e \<Rightarrow> Inl e
      | Inr s \<Rightarrow>
          if xs = [] then Inr s
          else (case joinElements pf sep xs of
              Inl e \<Rightarrow> Inl e
            | Inr r \<Rightarrow> Inr (s @ sep @ r)))"

subsection \<open>parseInt with radix 10\<close>

text \<open>
  The Number value for an integer: the nearest double, a tie going to the even significand,
  and an infinity when that rounding reaches \<open>2 ^ 1024\<close>. Integers below \<open>2 ^ 53\<close> in
  magnitude are doubles themselves.
\<close>

fun bitLength :: "nat \<Rightarrow> nat" where
  "bitLength n = (if n = 0 then 0 else Suc (bitLength (n div 2)))"

declare bitLength.simps [simp del]

text \<open>The magnitude of at least \<open>2 ^ 53\<close> rounded to 53 significant bits.\<close>

definition roundMagnitude :: "nat \<Rightarrow> nat" where
  "roundMagnitude a =
     (let e = bitLength a - 53;
          q = a div 2 ^ e;
          r = a mod 2 ^ e
      in (if 2 * r > 2 ^ e \<or> (2 * r = 2 ^ e \<and> odd q) then q + 1 else q) * 2 ^ e)"

definition numberOfInt :: "int \<Rightarrow> jsnum" where
  "numberOfInt n =
     (if \<bar>n\<bar> < 2 ^ 53 then Fin (of_int n)
      else if roundMagnitude (nat \<bar>n\<bar>) \<ge> 2 ^ 1024 then (if n < 0 then NegInf else PosInf)
      else Fin (of_int (if n < 0 then - int (roundMagnitude (nat \<bar>n\<bar>))
                        else int (roundMagnitude (nat \<bar>n\<bar>)))))"

definition isStrWhiteSpace :: "char \<Rightarrow> bool" where
  "isStrWhiteSpace c \<longleftrightarrow> of_char c \<in> {9, 10, 11, 12, 13, 32, 160 :: nat}"

definition isDigit :: "char \<Rightarrow> bool" where
  "isDigit c \<longleftrightarrow> 48 \<le> (of_char c :: nat) \<and> (of_char c :: nat) \<le> 57"

definition digitsValue :: "string \<Rightarrow> int" where
  "digitsValue ds = foldl (\<lambda>acc c. 10 * acc + (int (of_char c) - 48)) 0 ds"

text \<open>
  \<^verbatim>\<open>Number.parseInt(s, 10)\<close>: leading white space is skipped, one sign is read, then the
  longest run of decimal digits; with no digit the result is NaN, and otherwise it is the
  Number value for the signed integer that the digits denote. What follows the digits is
  ignored. (An engine may replace the digits after the twentieth significant one by zeros
  before rounding; the model rounds the exact integer.)
\<close>

definition parseInt10 :: "string \<Rightarrow> jsnum" where
  "parseInt10 s =
     (let s1 = dropWhile isStrWhiteSpace s;
          neg = (case s1 of c # _ \<Rightarrow> c = CHR ''-'' | [] \<Rightarrow> False);
          s2 = (case s1 of c # r \<Rightarrow> if c = CHR ''-'' \<or> c = CHR ''+'' then r else s1 | [] \<Rightarrow> s1);
          ds = takeWhile isDigit s2
      in if ds = [] then NaN
         else numberOfInt (if neg then - digitsValue ds else digitsValue ds))"

section \<open>The plan UI: result normalizers\<close>

datatype StepStatus = Pending | Completed

record PlanStep =
  description :: string
  status :: StepStatus

record Plan =
  steps :: "PlanStep list"

text \<open>
  The update that \<^verbatim>\<open>normalizeUpdateResult\<close> returns and \<^verbatim>\<open>updateStep\<close> takes. Its optional
  fields \<^verbatim>\<open>description\<close> and \<^verbatim>\<open>status\<close> are named \<open>new_description\<close> and \<open>new_status\<close>
  here, a step having fields of the same names; an absent field is \<open>None\<close>. The index has
  the type \<^verbatim>\<open>number\<close>.
\<close>

record UpdatePlanResult =
  index :: jsnum
  new_description :: "string option"
  new_status :: "StepStatus option"

text \<open>
  \<^verbatim>\<open>asRecord\<close> calls itself on what \<^verbatim>\<open>JSON.parse\<close> returns, so whether it returns depends
  on the parser: the outer \<open>option\<close> is \<open>None\<close> when the recursion never ends. The inner
  \<open>option\<close> is the result, \<open>None\<close> for \<^verbatim>\<open>null\<close>. An array is an object for \<^verbatim>\<open>typeof\<close>
  and is returned like one.
\<close>

partial_function (option) asRecord :: "platform \<Rightarrow> jsval \<Rightarrow> jsval option option" where
  "asRecord pf v =
     (case v of
        JStr s \<Rightarrow>
          (case JSON_parse pf s of
             None \<Rightarrow> Some None
           | Some parsed \<Rightarrow> asRecord pf parsed)
      | JObj kvs \<Rightarrow> Some (Some v)
      | JArr xs \<Rightarrow> Some (Some v)
      | _ \<Rightarrow> Some None)"

definition normalizeStep :: "platform \<Rightarrow> jsval \<Rightarrow> PlanStep option option" where
  "normalizeStep pf v =
     do {
       record \<leftarrow> asRecord pf v;
       Some (case record of
           None \<Rightarrow> None
         | Some r \<Rightarrow>
             (let description = (case read_prop r ''description'' of JStr d \<Rightarrow> Some d | _ \<Rightarrow> None);
                  status = (if read_prop r ''status'' = JStr ''completed'' then Completed else Pending)
              in case description of
                   None \<Rightarrow> None
                 | Some d \<Rightarrow> if d = [] then None
                             else Some \<lparr>description = d, status = status\<rparr>))
     }"

text \<open>The \<^verbatim>\<open>for ... of\<close> loop of \<^verbatim>\<open>normalizePlan\<close>, pushing onto \<^verbatim>\<open>steps\<close>.\<close>

fun normalizeSteps :: "platform \<Rightarrow> PlanStep list \<Rightarrow> jsval list \<Rightarrow> PlanStep list option" where
  "normalizeSteps pf acc [] = Some acc"
| "normalizeSteps pf acc (step # rest) =
     do {
       normalized \<leftarrow> normalizeStep pf step;
       normalizeSteps pf (case normalized of Some n \<Rightarrow> acc @ [n] | None \<Rightarrow> acc) rest
     }"

definition normalizePlan :: "platform \<Rightarrow> jsval \<Rightarrow> Plan option option" where
  "normalizePlan pf v =
     do {
       record \<leftarrow> asRecord pf v;
       (case record of
           None \<Rightarrow> Some None
         | Some r \<Rightarrow>
             (let stepsSource = (case read_prop r ''steps'' of JArr xs \<Rightarrow> xs | _ \<Rightarrow> [])
              in if length stepsSource = 0 then Some None
                 else do {
                   steps \<leftarrow> normalizeSteps pf [] stepsSource;
                   Some (if length steps = 0 then None else Some \<lparr>steps = steps\<rparr>)
                 }))
     }"

definition normalizeCreateResult :: "platform \<Rightarrow> jsval \<Rightarrow> Plan option option" where
  "normalizeCreateResult pf v =
     do {
       record \<leftarrow> asRecord pf v;
       (case record of
           None \<Rightarrow> Some None
         | Some r \<Rightarrow>
             if truthy (read_prop r ''plan'') then normalizePlan pf (read_prop r ''plan'')
             else normalizePlan pf r)
     }"

text \<open>The index expression of \<^verbatim>\<open>normalizeUpdateResult\<close>: a number is taken as it is;
  anything else goes through \<^verbatim>\<open>String\<close> (with \<^verbatim>\<open>"-1"\<close> for null and undefined), which
  may throw, and \<^verbatim>\<open>parseInt\<close>.\<close>

definition parseIndex :: "platform \<Rightarrow> jsval \<Rightarrow> error + jsnum" where
  "parseIndex pf indexRaw =
     (case indexRaw of
        JNum n \<Rightarrow> Inr n
      | _ \<Rightarrow>
          (case toString pf (if nullish indexRaw then JStr ''-1'' else indexRaw) of
             Inl e \<Rightarrow> Inl e
           | Inr s \<Rightarrow> Inr (parseInt10 s)))"

text \<open>\<^verbatim>\<open>normalizeUpdateResult\<close> has no \<^verbatim>\<open>try\<close> around the index expression: what it returns
  is the exception of \<^verbatim>\<open>String\<close> or its result, \<open>None\<close> for \<^verbatim>\<open>null\<close>.\<close>

definition normalizeUpdateResult ::
    "platform \<Rightarrow> jsval \<Rightarrow> (error + UpdatePlanResult option) option" where
  "normalizeUpdateResult pf v =
     do {
       record \<leftarrow> asRecord pf v;
       Some (case record of
           None \<Rightarrow> Inr None
         | Some r \<Rightarrow>
             (case parseIndex pf (read_prop r ''index'') of
                Inl e \<Rightarrow> Inl e
              | Inr parsed \<Rightarrow>
                  Inr (if \<not> isFinite parsed \<or> num_lt parsed (Fin 0) then None
                       else Some \<lparr>index = parsed,
                         new_description =
                           (case read_prop r ''description'' of JStr d \<Rightarrow> Some d | _ \<Rightarrow> None),
                         new_status =
                           (if read_prop r ''status'' = JStr ''completed'' then Some Completed
                            else if read_prop r ''status'' = JStr ''pending'' then Some Pending
                            else None)\<rparr>)))
     }"

section \<open>The plan store\<close>

text \<open>
  The state cell of \<^verbatim>\<open>PlanProvider\<close> holds \<^verbatim>\<open>null\<close> or a reference to a Plan object.
  Plan objects are never mutated after they are built, so an object is modelled by its
  reference paired with its value; \<open>fresh\<close> is the next unused reference.
\<close>

type_synonym ref = nat

record PlanState =
  plan :: "(ref \<times> Plan) option"
  fresh :: ref

definition setPlan :: "(ref \<times> Plan) option \<Rightarrow> PlanState \<Rightarrow> PlanState" where
  "setPlan p st = st\<lparr>plan := p\<rparr>"

text \<open>
  \<^verbatim>\<open>updateStep\<close> passes an updater to the state setter: the new state is what the updater
  returns for the previous one, either \<^verbatim>\<open>prev\<close> itself or a newly built object.
\<close>

definition updateStep :: "UpdatePlanResult \<Rightarrow> PlanState \<Rightarrow> PlanState" where
  "updateStep update st =
     (case plan st of
        None \<Rightarrow> st
      | Some (r, prev) \<Rightarrow>
          if num_lt (index update) (Fin 0)
             \<or> num_ge (index update) (Fin (of_nat (length (steps prev))))
          then st
          else st\<lparr>plan := Some (fresh st,
                 \<lparr>steps = map (\<lambda>(idx, step).
                     if Fin (of_nat idx) \<noteq> index update then step
                     else \<lparr>description =
                             (case new_description update of Some d \<Rightarrow> d
                              | None \<Rightarrow> description step),
                           status =
                             (case new_status update of Some s \<Rightarrow> s
                              | None \<Rightarrow> status step)\<rparr>)
                   (enumerate 0 (steps prev))\<rparr>),
               fresh := Suc (fresh st)\<rparr>)"

text \<open>The effect of \<^verbatim>\<open>UpdatePlanToolUI\<close>: normalize the tool result and, when that gives an
  update, apply it. An exception of the normalizer leaves the render function.\<close>

definition updateBinding :: "platform \<Rightarrow> jsval \<Rightarrow> PlanState \<Rightarrow> (error + PlanState) option" where
  "updateBinding pf result st =
     do {
       normalized \<leftarrow> normalizeUpdateResult pf result;
       Some (case normalized of
           Inl e \<Rightarrow> Inl e
         | Inr None \<Rightarrow> Inr st
         | Inr (Some u) \<Rightarrow> Inr (updateStep u st))
     }"

section \<open>The request adapter\<close>

subsection \<open>Transforming a request\<close>

text \<open>
  \<^verbatim>\<open>transformRequestToBackendFormat\<close> is declared on \<^verbatim>\<open>AssistantUIRequest\<close>, but the
  interceptor calls it with whatever \<^verbatim>\<open>JSON.parse\<close> gave, and the entries of \<^verbatim>\<open>tools\<close>
  are \<^verbatim>\<open>any\<close>; it is modelled on values, and every read that throws on null or undefined
  is a branch that returns the error.
\<close>

text \<open>\<^verbatim>\<open>xs.map(f)\<close> for an f that may throw: the first exception ends the call.\<close>

fun map_err :: "('a \<Rightarrow> error + 'b) \<Rightarrow> 'a list \<Rightarrow> error + 'b list" where
  "map_err f [] = Inr []"
| "map_err f (x # xs) =
     (case f x of
        Inl e \<Rightarrow> Inl e
      | Inr y \<Rightarrow> (case map_err f xs of Inl e \<Rightarrow> Inl e | Inr ys \<Rightarrow> Inr (y # ys)))"

text \<open>\<^verbatim>\<open>xs.filter(f)\<close> for an f that may throw.\<close>

fun filter_err :: "('a \<Rightarrow> error + bool) \<Rightarrow> 'a list \<Rightarrow> error + 'a list" where
  "filter_err f [] = Inr []"
| "filter_err f (x # xs) =
     (case f x of
        Inl e \<Rightarrow> Inl e
      | Inr b \<Rightarrow>
          (case filter_err f xs of
             Inl e \<Rightarrow> Inl e
           | Inr ys \<Rightarrow> Inr (if b then x # ys else ys)))"

text \<open>\<^verbatim>\<open>part.type === "text"\<close>\<close>

definition isTextPart :: "jsval \<Rightarrow> error + bool" where
  "isTextPart part =
     (case get_prop part ''type'' of Inl e \<Rightarrow> Inl e | Inr t \<Rightarrow> Inr (t = JStr ''text''))"

text \<open>\<^verbatim>\<open>part.text || ""\<close>, on a part whose type has been read.\<close>

definition textOrEmpty :: "jsval \<Rightarrow> jsval" where
  "textOrEmpty part = (let t = read_prop part ''text'' in if truthy t then t else JStr [])"

text \<open>\<^verbatim>\<open>v || {}\<close>\<close>

definition orEmptyObject :: "jsval \<Rightarrow> jsval" where
  "orEmptyObject v = (if truthy v then v else JObj [])"

text \<open>
  \<^verbatim>\<open>msg.content?.filter(...).map(...).join("") || ""\<close>, on a message whose role has been
  read. The chain stops at a null or undefined content; any other content that is not an
  array has no \<^verbatim>\<open>filter\<close> function, and calling it throws.
\<close>

definition systemContent :: "platform \<Rightarrow> jsval \<Rightarrow> error + string" where
  "systemContent pf msg =
     (let content = read_prop msg ''content''
      in if nullish content then Inr []
         else (case content of
             JArr parts \<Rightarrow>
               (case filter_err isTextPart parts of
                  Inl e \<Rightarrow> Inl e
                | Inr texts \<Rightarrow> joinElements pf [] (map textOrEmpty texts))
           | _ \<Rightarrow> Inl TypeError))"

definition transformPart :: "jsval \<Rightarrow> error + jsval" where
  "transformPart part =
     (case get_prop part ''type'' of
        Inl e \<Rightarrow> Inl e
      | Inr t \<Rightarrow>
          Inr (if t = JStr ''text''
               then JObj [(''type'', JStr ''text''), (''text'', textOrEmpty part)]
               else part))"

text \<open>\<^verbatim>\<open>(msg.content || []).map(...)\<close>\<close>

definition transformContent :: "jsval \<Rightarrow> error + jsval list" where
  "transformContent msg =
     (let content = read_prop msg ''content''
      in if \<not> truthy content then Inr []
         else (case content of
             JArr parts \<Rightarrow> map_err transformPart parts
           | _ \<Rightarrow> Inl TypeError))"

text \<open>The body of the loop over the messages, with the variables \<^verbatim>\<open>system\<close> and
  \<^verbatim>\<open>messages\<close> as arguments.\<close>

fun processMessages :: "platform \<Rightarrow> string \<Rightarrow> jsval list \<Rightarrow> jsval list
    \<Rightarrow> error + (string \<times> jsval list)" where
  "processMessages pf system messages [] = Inr (system, messages)"
| "processMessages pf system messages (msg # rest) =
     (case get_prop msg ''role'' of
        Inl e \<Rightarrow> Inl e
      | Inr role \<Rightarrow>
          if role = JStr ''system'' then
            (case systemContent pf msg of
               Inl e \<Rightarrow> Inl e
             | Inr sc \<Rightarrow> processMessages pf (if sc \<noteq> [] then sc else system) messages rest)
          else if role = JStr ''user'' \<or> role = JStr ''assistant'' then
            (case transformContent msg of
               Inl e \<Rightarrow> Inl e
             | Inr transformedContent \<Rightarrow>
                 processMessages pf system
                   (messages @ [JObj [(''role'', role), (''content'', JArr transformedContent)]])
                   rest)
          else processMessages pf system messages rest)"

text \<open>What \<^verbatim>\<open>for (const msg of v)\<close> goes through: the elements of an array, the characters
  of a string; any other value is not iterable.\<close>

definition iterate :: "jsval \<Rightarrow> error + jsval list" where
  "iterate v =
     (case v of
        JArr xs \<Rightarrow> Inr xs
      | JStr s \<Rightarrow> Inr (map (\<lambda>c. JStr [c]) s)
      | _ \<Rightarrow> Inl TypeError)"

definition toolOfEntry :: "jsval \<Rightarrow> error + jsval" where
  "toolOfEntry tool =
     (case get_prop tool ''name'' of
        Inl e \<Rightarrow> Inl e
      | Inr n \<Rightarrow>
          Inr (JObj [(''name'', if truthy n then n else tool),
                     (''description'', read_prop tool ''description''),
                     (''parameters'', orEmptyObject (read_prop tool ''parameters''))]))"

definition toolOfPair :: "string \<times> jsval \<Rightarrow> jsval" where
  "toolOfPair p =
     (case p of (name, tool) \<Rightarrow>
        JObj [(''name'', JStr name),
              (''description'', opt_prop tool ''description''),
              (''parameters'', orEmptyObject (opt_prop tool ''parameters''))])"

text \<open>The \<^verbatim>\<open>tools\<close> part: an empty array is an object with no keys, and a truthy value
  that is neither an array nor an object leaves the empty list.\<close>

definition transformTools :: "jsval \<Rightarrow> error + jsval list" where
  "transformTools requestTools =
     (if \<not> truthy requestTools then Inr []
      else (case requestTools of
          JArr ts \<Rightarrow> if length ts > 0 then map_err toolOfEntry ts else Inr []
        | JObj kvs \<Rightarrow> if length kvs > 0 then Inr (map toolOfPair kvs) else Inr []
        | _ \<Rightarrow> Inr []))"

record BackendChatRequest =
  system :: string
  tools :: "jsval list"
  messages :: "jsval list"

definition transformRequestToBackendFormat ::
    "platform \<Rightarrow> jsval \<Rightarrow> string option \<Rightarrow> error + BackendChatRequest" where
  "transformRequestToBackendFormat pf request systemMessage =
     (case get_prop request ''messages'' of
        Inl e \<Rightarrow> Inl e
      | Inr m \<Rightarrow>
          (case iterate (if truthy m then m else JArr []) of
             Inl e \<Rightarrow> Inl e
           | Inr msgs \<Rightarrow>
               (case processMessages pf (case systemMessage of Some s \<Rightarrow> s | None \<Rightarrow> []) [] msgs of
                  Inl e \<Rightarrow> Inl e
                | Inr (sys, out) \<Rightarrow>
                    (case transformTools (read_prop request ''tools'') of
                       Inl e \<Rightarrow> Inl e
                     | Inr ts \<Rightarrow> Inr \<lparr>system = sys, tools = ts, messages = out\<rparr>))))"

text \<open>The object that \<^verbatim>\<open>JSON.stringify\<close> receives.\<close>

definition backendJson :: "BackendChatRequest \<Rightarrow> jsval" where
  "backendJson b =
     JObj [(''system'', JStr (system b)), (''tools'', JArr (tools b)),
           (''messages'', JArr (messages b))]"

subsection \<open>The fetch interceptor\<close>

text \<open>
  The first argument of \<^verbatim>\<open>fetch\<close>: a string, a URL object (with its text) or a Request
  object, for which the interceptor computes the empty URL.
\<close>

datatype fetch_input = InputString string | InputURL string | InputRequest string

fun inputUrl :: "fetch_input \<Rightarrow> string" where
  "inputUrl (InputString s) = s"
| "inputUrl (InputURL s) = s"
| "inputUrl (InputRequest s) = []"

text \<open>A body is a string, a FormData object or another object (Blob, buffer, stream,
  URLSearchParams), the objects named by a number.\<close>

datatype BodyInit = BodyString string | BodyFormData nat | BodyObject nat

text \<open>
  Headers are given as a plain record, as a \<^verbatim>\<open>Headers\<close> object or as an array of
  name/value pairs. Order never matters for a header record, so it is a map.
  Spreading copies the own enumerable properties: the entries of a record, nothing of a
  \<^verbatim>\<open>Headers\<close> object, and the pairs of an array under their indices.
\<close>

datatype HeadersInit =
    HeadersRecord "string \<rightharpoonup> jsval"
  | HeadersObject "string \<rightharpoonup> string"
  | HeadersPairs "(string \<times> string) list"

fun decimal :: "nat \<Rightarrow> string" where
  "decimal n =
     (if n < 10 then [char_of (48 + n)]
      else decimal (n div 10) @ [char_of (48 + n mod 10)])"

declare decimal.simps [simp del]

fun ownProps :: "HeadersInit \<Rightarrow> (string \<rightharpoonup> jsval)" where
  "ownProps (HeadersRecord m) = m"
| "ownProps (HeadersObject m) = Map.empty"
| "ownProps (HeadersPairs ps) =
     map_of (map (\<lambda>(i, (k, v)). (decimal i, JArr [JStr k, JStr v])) (enumerate 0 ps))"

text \<open>The second argument of \<^verbatim>\<open>fetch\<close>; \<open>http_method\<close> is its \<^verbatim>\<open>method\<close> field, and
  \<open>others\<close> holds the fields that the interceptor copies without reading.\<close>

record RequestInit =
  http_method :: "string option"
  body :: "BodyInit option"
  headers :: "HeadersInit option"
  others :: "(string \<times> jsval) list"

record adapter =
  apiEndpoint :: string
  adapterHeaders :: "string \<rightharpoonup> string"
  systemMessage :: "string option"

text \<open>\<^verbatim>\<open>url.includes(apiEndpoint)\<close>\<close>

fun str_includes :: "string \<Rightarrow> string \<Rightarrow> bool" where
  "str_includes [] pat = (pat = [])"
| "str_includes (c # r) pat = (take (length pat) (c # r) = pat \<or> str_includes r pat)"

text \<open>\<^verbatim>\<open>{"Content-Type": "application/json", ...headers, ...(init?.headers || {})}\<close>\<close>

definition mergedHeaders :: "adapter \<Rightarrow> RequestInit \<Rightarrow> (string \<rightharpoonup> jsval)" where
  "mergedHeaders cfg init =
     [''Content-Type'' \<mapsto> JStr ''application/json'']
       ++ (\<lambda>k. map_option JStr (adapterHeaders cfg k))
       ++ (case headers init of None \<Rightarrow> Map.empty | Some h \<Rightarrow> ownProps h)"

text \<open>
  The \<^verbatim>\<open>try\<close> block up to the new body: the call is passed on as it is for a FormData
  body, the body is rewritten, or an exception is caught. An absent or empty body stands
  for \<^verbatim>\<open>{}\<close>, and a body object has none of the properties the transformation reads.
\<close>

datatype rewrite = PassedOn | Rewritten string | Caught error

definition transformedBody :: "platform \<Rightarrow> adapter \<Rightarrow> jsval \<Rightarrow> rewrite" where
  "transformedBody pf cfg originalBody =
     (case transformRequestToBackendFormat pf originalBody (systemMessage cfg) of
        Inl e \<Rightarrow> Caught e
      | Inr b \<Rightarrow> Rewritten (JSON_stringify pf (backendJson b)))"

definition rewriteBody :: "platform \<Rightarrow> adapter \<Rightarrow> RequestInit \<Rightarrow> rewrite" where
  "rewriteBody pf cfg init =
     (case body init of
        None \<Rightarrow> transformedBody pf cfg (JObj [])
      | Some (BodyString s) \<Rightarrow>
          if s = [] then transformedBody pf cfg (JObj [])
          else (case JSON_parse pf s of
              None \<Rightarrow> Caught SyntaxError
            | Some originalBody \<Rightarrow> transformedBody pf cfg originalBody)
      | Some (BodyFormData n) \<Rightarrow> PassedOn
      | Some (BodyObject n) \<Rightarrow> transformedBody pf cfg (JObj []))"

text \<open>The function installed as \<^verbatim>\<open>window.fetch\<close>: the arguments with which it calls
  \<^verbatim>\<open>originalFetch\<close>.\<close>

definition interceptCall ::
    "platform \<Rightarrow> adapter \<Rightarrow> fetch_input \<Rightarrow> RequestInit option
     \<Rightarrow> fetch_input \<times> RequestInit option" where
  "interceptCall pf cfg input init =
     (case init of
        None \<Rightarrow> (input, init)
      | Some i \<Rightarrow>
          if http_method i = Some ''POST'' \<and> str_includes (inputUrl input) (apiEndpoint cfg) then
            (case rewriteBody pf cfg i of
               PassedOn \<Rightarrow> (input, init)
             | Rewritten b \<Rightarrow>
                 (input, Some (i\<lparr>body := Some (BodyString b),
                                  headers := Some (HeadersRecord (mergedHeaders cfg i))\<rparr>))
             | Caught e \<Rightarrow>
                 (input, Some (i\<lparr>headers := Some (HeadersRecord (mergedHeaders cfg i))\<rparr>)))
          else (input, init))"

text \<open>
  A function that can be the value of \<^verbatim>\<open>window.fetch\<close>: one that this program did not
  make, or a wrapper made by \<^verbatim>\<open>createFetchInterceptor\<close>, which holds the configuration
  and the \<^verbatim>\<open>originalFetch\<close> it captured. The number is the identity of the function
  object.
\<close>

datatype fetch_fn = External nat | Wrapper nat adapter fetch_fn

record window =
  fetch :: fetch_fn
  nextClosure :: nat

text \<open>\<^verbatim>\<open>createFetchInterceptor\<close> returns the cleanup function; the model returns it with
  the new state of the window.\<close>

definition createFetchInterceptor ::
    "string \<Rightarrow> (string \<rightharpoonup> string) \<Rightarrow> string option \<Rightarrow> window
     \<Rightarrow> (window \<Rightarrow> window) \<times> window" where
  "createFetchInterceptor endpoint hdrs sysmsg w =
     (let originalFetch = fetch w
      in (\<lambda>w'. w'\<lparr>fetch := originalFetch\<rparr>,
          w\<lparr>fetch := Wrapper (nextClosure w)
                 \<lparr>apiEndpoint = endpoint, adapterHeaders = hdrs, systemMessage = sysmsg\<rparr>
                 originalFetch,
            nextClosure := Suc (nextClosure w)\<rparr>))"

text \<open>Calling a fetch function: the external function that is reached in the end, with the
  arguments it receives.\<close>

fun callFetch :: "platform \<Rightarrow> fetch_fn \<Rightarrow> fetch_input \<Rightarrow> RequestInit option
    \<Rightarrow> nat \<times> fetch_input \<times> RequestInit option" where
  "callFetch pf (External n) input init = (n, input, init)"
| "callFetch pf (Wrapper k cfg orig) input init =
     (case interceptCall pf cfg input init of
        (input', init') \<Rightarrow> callFetch pf orig input' init')"


section \<open>Notions used to state the properties\<close>

text \<open>The length of the text that \<^verbatim>\<open>asRecord\<close> still has to decode.\<close>

fun textLength :: "jsval \<Rightarrow> nat" where
  "textLength (JStr s) = Suc (length s)"
| "textLength _ = 0"

text \<open>\<open>unwrap pf n v = Some w\<close>: v is w wrapped in n levels of JSON string encoding, that is,
  parsing n times, each time a string, leads from v to w.\<close>

fun unwrap :: "platform \<Rightarrow> nat \<Rightarrow> jsval \<Rightarrow> jsval option" where
  "unwrap pf 0 v = Some v"
| "unwrap pf (Suc n) v =
     (case v of
        JStr s \<Rightarrow> (case JSON_parse pf s of None \<Rightarrow> None | Some w \<Rightarrow> unwrap pf n w)
      | _ \<Rightarrow> None)"

text \<open>The step that \<^verbatim>\<open>normalizeStep\<close> returns for an entry, \<open>None\<close> for \<^verbatim>\<open>null\<close>.\<close>

definition stepOf :: "platform \<Rightarrow> jsval \<Rightarrow> PlanStep option" where
  "stepOf pf x = (case normalizeStep pf x of Some r \<Rightarrow> r | None \<Rightarrow> None)"

subsection \<open>Requests of the declared type\<close>

text \<open>
  The values that have the type \<^verbatim>\<open>AssistantUIRequest\<close>: an object whose \<^verbatim>\<open>messages\<close> is
  an array of objects with a string \<^verbatim>\<open>role\<close> and an array \<^verbatim>\<open>content\<close> of parts, a part
  being an object with a string \<^verbatim>\<open>type\<close> and a \<^verbatim>\<open>text\<close> that is a string or absent, and
  whose \<^verbatim>\<open>tools\<close> is absent, an object or an array.
\<close>

definition isPart :: "jsval \<Rightarrow> bool" where
  "isPart p =
     (case p of
        JObj kvs \<Rightarrow>
          (case read_prop p ''type'' of
             JStr t \<Rightarrow>
               (case read_prop p ''text'' of JStr s \<Rightarrow> True | JUndefined \<Rightarrow> True | _ \<Rightarrow> False)
           | _ \<Rightarrow> False)
      | _ \<Rightarrow> False)"

definition isMessage :: "jsval \<Rightarrow> bool" where
  "isMessage m =
     (case m of
        JObj kvs \<Rightarrow>
          (case read_prop m ''role'' of
             JStr r \<Rightarrow>
               (case read_prop m ''content'' of
                  JArr parts \<Rightarrow> list_all isPart parts
                | _ \<Rightarrow> False)
           | _ \<Rightarrow> False)
      | _ \<Rightarrow> False)"

definition conforms :: "jsval \<Rightarrow> bool" where
  "conforms request =
     (case request of
        JObj kvs \<Rightarrow>
          (case read_prop request ''messages'' of
             JArr msgs \<Rightarrow> list_all isMessage msgs
           | _ \<Rightarrow> False)
          \<and> (case read_prop request ''tools'' of
               JUndefined \<Rightarrow> True | JObj tkvs \<Rightarrow> True | JArr ts \<Rightarrow> True | _ \<Rightarrow> False)
      | _ \<Rightarrow> False)"

text \<open>No entry of a \<^verbatim>\<open>tools\<close> array is null or undefined.\<close>

definition noNullTools :: "jsval \<Rightarrow> bool" where
  "noNullTools request =
     (case read_prop request ''tools'' of
        JArr ts \<Rightarrow> list_all (\<lambda>t. \<not> nullish t) ts
      | _ \<Rightarrow> True)"

definition requestMessages :: "jsval \<Rightarrow> jsval list" where
  "requestMessages request =
     (case read_prop request ''messages'' of JArr msgs \<Rightarrow> msgs | _ \<Rightarrow> [])"

definition hasRole :: "string \<Rightarrow> jsval \<Rightarrow> bool" where
  "hasRole r m = (read_prop m ''role'' = JStr r)"

definition contentParts :: "jsval \<Rightarrow> jsval list" where
  "contentParts m = (case read_prop m ''content'' of JArr parts \<Rightarrow> parts | _ \<Rightarrow> [])"

definition isText :: "jsval \<Rightarrow> bool" where
  "isText p = (read_prop p ''type'' = JStr ''text'')"

definition partText :: "jsval \<Rightarrow> string" where
  "partText p = (case read_prop p ''text'' of JStr s \<Rightarrow> s | _ \<Rightarrow> [])"

text \<open>The concatenation of the texts of the text-typed parts of a message.\<close>

definition systemText :: "jsval \<Rightarrow> string" where
  "systemText m = concat (map partText (filter isText (contentParts m)))"

text \<open>The non-empty texts of the system-role messages, in input order.\<close>

definition systemTexts :: "jsval list \<Rightarrow> string list" where
  "systemTexts msgs = filter (\<lambda>t. t \<noteq> []) (map systemText (filter (hasRole ''system'') msgs))"

text \<open>A text-typed part rebuilt from its type and text alone; any other part as it is.\<close>

definition rebuildPart :: "jsval \<Rightarrow> jsval" where
  "rebuildPart p =
     (if isText p then JObj [(''type'', JStr ''text''), (''text'', JStr (partText p))] else p)"

definition rebuildMessage :: "jsval \<Rightarrow> jsval" where
  "rebuildMessage m =
     JObj [(''role'', read_prop m ''role''),
           (''content'', JArr (map rebuildPart (contentParts m)))]"

text \<open>The tool made from an entry of a \<^verbatim>\<open>tools\<close> array that is not null or undefined.\<close>

definition entryTool :: "jsval \<Rightarrow> jsval" where
  "entryTool e =
     JObj [(''name'', if truthy (read_prop e ''name'') then read_prop e ''name'' else e),
           (''description'', read_prop e ''description''),
           (''parameters'', orEmptyObject (read_prop e ''parameters''))]"

definition toolsOut :: "jsval \<Rightarrow> jsval list" where
  "toolsOut requestTools =
     (case requestTools of
        JArr ts \<Rightarrow> map entryTool ts
      | JObj kvs \<Rightarrow> map toolOfPair kvs
      | _ \<Rightarrow> [])"

subsection \<open>A host for evaluating examples\<close>

text \<open>
  A host that knows finitely many JSON texts: \<open>table\<close> lists texts with the values they
  denote. Parsing any other text throws, and a value is serialised to the first text listed
  for it.
\<close>

definition host :: "(string \<times> jsval) list \<Rightarrow> platform" where
  "host table =
     \<lparr>JSON_parse = map_of table,
      JSON_stringify = (\<lambda>v. case find (\<lambda>e. snd e = v) table of Some e \<Rightarrow> fst e | None \<Rightarrow> []),
      Number_toString =
        (\<lambda>n. case find (\<lambda>e. snd e = JNum n) table of Some e \<Rightarrow> fst e | None \<Rightarrow> [])\<rparr>"

text \<open>The JSON string literal for a text without control characters.\<close>

definition quoted :: "string \<Rightarrow> string" where
  "quoted s = [CHR 0x22]
     @ concat (map (\<lambda>c. if c = CHR 0x22 \<or> c = CHR 0x5C then [CHR 0x5C, c] else [c]) s)
     @ [CHR 0x22]"

text \<open>The texts and values of the examples: a plan with an entry that does not normalize,
  an update with a string index, a creation result holding the plan, each also as a string
  literal, a step under two more levels of string encoding, and the empty request.\<close>

definition planText :: string where
  \<open>planText = ''{"steps":[{"description":"a"},{"description":""},{"description":"b","status":"completed"}]}''\<close>

definition planValue :: jsval where
  "planValue =
     JObj [(''steps'', JArr [JObj [(''description'', JStr ''a'')],
                             JObj [(''description'', JStr '''')],
                             JObj [(''description'', JStr ''b''), (''status'', JStr ''completed'')]])]"

definition updateText :: string where
  \<open>updateText = ''{"index":"2","status":"completed"}''\<close>

definition updateValue :: jsval where
  "updateValue = JObj [(''index'', JStr ''2''), (''status'', JStr ''completed'')]"

definition stepText :: string where
  \<open>stepText = ''{"description":"a"}''\<close>

definition createText :: string where
  \<open>createText = ''{"plan":{"steps":[{"description":"a"},{"description":""},{"description":"b","status":"completed"}]}}''\<close>

definition emptyBackendText :: string where
  \<open>emptyBackendText = ''{"system":"","tools":[],"messages":[]}''\<close>

definition demoTable :: "(string \<times> jsval) list" where
  "demoTable =
     [(planText, planValue),
      (updateText, updateValue),
      (quoted (quoted stepText), JStr (quoted stepText)),
      (quoted stepText, JStr stepText),
      (stepText, JObj [(''description'', JStr ''a'')]),
      (quoted planText, JStr planText),
      (quoted updateText, JStr updateText),
      (quoted createText, JStr createText),
      (createText, JObj [(''plan'', planValue)]),
      (''{}'', JObj []),
      (emptyBackendText,
       JObj [(''system'', JStr []), (''tools'', JArr []), (''messages'', JArr [])])]"

text \<open>A request with a system message of two text parts, a user message and a keyed
  \<^verbatim>\<open>tools\<close> mapping; an adapter configuration; a POST call with the body \<^verbatim>\<open>{}\<close> and the given
  header record.\<close>

definition textPart :: "string \<Rightarrow> jsval" where
  "textPart s = JObj [(''type'', JStr ''text''), (''text'', JStr s)]"

definition message :: "string \<Rightarrow> jsval list \<Rightarrow> jsval" where
  "message r parts = JObj [(''role'', JStr r), (''content'', JArr parts)]"

definition demoRequest :: jsval where
  "demoRequest =
     JObj [(''messages'', JArr [message ''system'' [textPart ''A'', textPart ''B''],
                                message ''user'' [textPart ''hi'']]),
           (''tools'', JObj [(''search'', JObj [(''description'', JStr ''d'')])])]"

definition demoAdapter :: adapter where
  "demoAdapter = \<lparr>apiEndpoint = ''/api/chat'',
     adapterHeaders = [''Authorization'' \<mapsto> ''Bearer cfg'', ''X-App'' \<mapsto> ''a''],
     systemMessage = None\<rparr>"

definition demoInit :: "(string \<rightharpoonup> jsval) \<Rightarrow> RequestInit" where
  "demoInit h = \<lparr>http_method = Some ''POST'', body = Some (BodyString ''{}''),
     headers = Some (HeadersRecord h), others = []\<rparr>"

section \<open>Properties of the plan store\<close>

lemma map_enumerate_update:
  "i < length xs \<Longrightarrow>
   map (\<lambda>(idx, x). if Fin (of_nat idx) \<noteq> Fin (of_nat i) then x else f x) (enumerate 0 xs)
     = xs[i := f (xs ! i)]"
  by (rule nth_equalityI) (auto simp: nth_enumerate_eq nth_list_update)

lemma updateStep_in_range:
  assumes "plan st = Some (r, p)" and "i < length (steps p)" and "index u = Fin (of_nat i)"
  shows "updateStep u st =
           st\<lparr>plan := Some (fresh st,
                 \<lparr>steps = (steps p)[i :=
                    \<lparr>description = (case new_description u of Some d \<Rightarrow> d
                                     | None \<Rightarrow> description (steps p ! i)),
                     status = (case new_status u of Some s \<Rightarrow> s
                                | None \<Rightarrow> status (steps p ! i))\<rparr>]\<rparr>),
              fresh := Suc (fresh st)\<rparr>"
  using assms map_enumerate_update [of i "steps p"]
  by (simp add: updateStep_def)

text \<open>
  C5. When no Plan is set, or when the update's index is below 0 or at least the number of
  steps, \<^verbatim>\<open>updateStep\<close> leaves the store as it is: the state cell holds the same reference
  as before, and no new object is built. The function has no failing path.
\<close>

theorem updateStep_out_of_range_noop:
  assumes "case plan st of
             None \<Rightarrow> True
           | Some (r, p) \<Rightarrow> num_lt (index u) (Fin 0)
                             \<or> num_ge (index u) (Fin (of_nat (length (steps p))))"
  shows "updateStep u st = st"
  using assms by (auto simp: updateStep_def split: option.splits)

theorem updateStep_out_of_range_noop_witness:
  "num_lt (Fin (- 1)) (Fin 0)
   \<and> updateStep \<lparr>index = Fin (- 1), new_description = Some ''x'', new_status = Some Completed\<rparr>
        \<lparr>plan = Some (0, \<lparr>steps = [\<lparr>description = ''a'', status = Pending\<rparr>,
                                     \<lparr>description = ''b'', status = Pending\<rparr>]\<rparr>), fresh = 1\<rparr>
      = \<lparr>plan = Some (0, \<lparr>steps = [\<lparr>description = ''a'', status = Pending\<rparr>,
                                     \<lparr>description = ''b'', status = Pending\<rparr>]\<rparr>), fresh = 1\<rparr>
   \<and> num_ge (Fin 2) (Fin (of_nat (length [\<lparr>description = ''a'', status = Pending\<rparr>,
                                     \<lparr>description = ''b'', status = Pending\<rparr>])))
   \<and> updateStep \<lparr>index = Fin 2, new_description = Some ''x'', new_status = Some Completed\<rparr>
        \<lparr>plan = Some (0, \<lparr>steps = [\<lparr>description = ''a'', status = Pending\<rparr>,
                                     \<lparr>description = ''b'', status = Pending\<rparr>]\<rparr>), fresh = 1\<rparr>
      = \<lparr>plan = Some (0, \<lparr>steps = [\<lparr>description = ''a'', status = Pending\<rparr>,
                                     \<lparr>description = ''b'', status = Pending\<rparr>]\<rparr>), fresh = 1\<rparr>
   \<and> updateStep \<lparr>index = Fin 0, new_description = Some ''x'', new_status = Some Completed\<rparr>
        \<lparr>plan = None, fresh = 0\<rparr> = \<lparr>plan = None, fresh = 0\<rparr>"
  using
    updateStep_out_of_range_noop [where
      st = "\<lparr>plan = Some (0, \<lparr>steps = [\<lparr>description = ''a'', status = Pending\<rparr>,
                                     \<lparr>description = ''b'', status = Pending\<rparr>]\<rparr>), fresh = 1\<rparr>"
      and u = "\<lparr>index = Fin (- 1), new_description = Some ''x'', new_status = Some Completed\<rparr>"]
    updateStep_out_of_range_noop [where
      st = "\<lparr>plan = Some (0, \<lparr>steps = [\<lparr>description = ''a'', status = Pending\<rparr>,
                                     \<lparr>description = ''b'', status = Pending\<rparr>]\<rparr>), fresh = 1\<rparr>"
      and u = "\<lparr>index = Fin 2, new_description = Some ''x'', new_status = Some Completed\<rparr>"]
    updateStep_out_of_range_noop [where st = "\<lparr>plan = None, fresh = 0\<rparr>"
      and u = "\<lparr>index = Fin 0, new_description = Some ''x'', new_status = Some Completed\<rparr>"]
  by simp


section \<open>Properties of the normalizers\<close>

lemma asRecord_JStr:
  "asRecord pf (JStr s) =
     (case JSON_parse pf s of None \<Rightarrow> Some None | Some parsed \<Rightarrow> asRecord pf parsed)"
  by (subst asRecord.simps) simp

lemma asRecord_JObj [simp]: "asRecord pf (JObj kvs) = Some (Some (JObj kvs))"
  by (subst asRecord.simps) simp

lemma asRecord_JArr [simp]: "asRecord pf (JArr xs) = Some (Some (JArr xs))"
  by (subst asRecord.simps) simp

lemma asRecord_other [simp]:
  "asRecord pf JUndefined = Some None"
  "asRecord pf JNull = Some None"
  "asRecord pf (JBool b) = Some None"
  "asRecord pf (JNum n) = Some None"
  by (subst asRecord.simps, simp)+

text \<open>With a parser that shrinks strings, \<^verbatim>\<open>asRecord\<close> returns on every value: each
  recursive call is on a shorter text.\<close>

lemma asRecord_returns:
  assumes "shrinks pf"
  shows "\<exists>r. asRecord pf v = Some r"
proof (induction v rule: measure_induct_rule [of textLength])
  case (less v)
  show ?case
  proof (cases v)
    case (JStr s)
    show ?thesis
    proof (cases "JSON_parse pf s")
      case None
      with JStr show ?thesis by (simp add: asRecord_JStr)
    next
      case (Some w)
      have "textLength w < textLength v"
      proof (cases w)
        case (JStr t)
        with Some assms have "length t < length s" by (simp add: shrinks_def)
        with JStr \<open>v = JStr s\<close> show ?thesis by simp
      qed (simp_all add: JStr)
      then obtain r where "asRecord pf w = Some r" using less by blast
      with JStr Some show ?thesis by (simp add: asRecord_JStr)
    qed
  qed simp_all
qed

lemma asRecord_unwrap: "unwrap pf n v = Some w \<Longrightarrow> asRecord pf v = asRecord pf w"
  by (induction n arbitrary: v) (auto simp: asRecord_JStr split: jsval.splits option.splits)

lemma shrinks_host:
  "list_all (\<lambda>(s, v). case v of JStr t \<Rightarrow> length t < length s | _ \<Rightarrow> True) table
   \<Longrightarrow> shrinks (host table)"
  unfolding shrinks_def host_def
  by (auto simp: list_all_iff dest!: map_of_SomeD)

lemma length_quoted: "length s < length (quoted s)"
proof -
  have "length s
      \<le> length (concat (map (\<lambda>c. if c = CHR 0x22 \<or> c = CHR 0x5C then [CHR 0x5C, c] else [c]) s))"
    by (induction s) auto
  then show ?thesis by (simp add: quoted_def)
qed

lemma shrinks_demo: "shrinks (host demoTable)"
  by (rule shrinks_host)
    (simp add: demoTable_def length_quoted planValue_def updateValue_def)

lemma parse_planText: "JSON_parse (host demoTable) planText = Some planValue"
  by (simp add: host_def demoTable_def)

lemma parse_updateText: "JSON_parse (host demoTable) updateText = Some updateValue"
  by (simp add: host_def demoTable_def planText_def updateText_def)

lemma parse_not_json: "JSON_parse (host demoTable) ''not json'' = None"
  by (simp add: host_def demoTable_def planText_def updateText_def stepText_def quoted_def
      emptyBackendText_def createText_def)

lemma normalizeStep_unfold:
  "asRecord pf v = Some rec \<Longrightarrow>
   normalizeStep pf v =
     Some (case rec of
        None \<Rightarrow> None
      | Some r \<Rightarrow>
          (case read_prop r ''description'' of
             JStr d \<Rightarrow> if d = [] then None
                       else Some \<lparr>description = d,
                         status = (if read_prop r ''status'' = JStr ''completed''
                                   then Completed else Pending)\<rparr>
           | _ \<Rightarrow> None))"
  by (simp add: normalizeStep_def split: option.splits jsval.splits)

lemma normalizeStep_returns: "shrinks pf \<Longrightarrow> \<exists>r. normalizeStep pf v = Some r"
  using asRecord_returns [of pf v] by (auto simp: normalizeStep_def)

lemma normalizeSteps_eq:
  "\<forall>x \<in> set xs. normalizeStep pf x = Some (g x) \<Longrightarrow>
   normalizeSteps pf acc xs = Some (acc @ List.map_filter g xs)"
  by (induction xs arbitrary: acc) (auto simp: List.map_filter_simps split: option.splits)

lemma normalizeSteps_shrinks:
  assumes "shrinks pf"
  shows "normalizeSteps pf acc xs = Some (acc @ List.map_filter (stepOf pf) xs)"
proof (rule normalizeSteps_eq, rule ballI)
  fix x
  from normalizeStep_returns [OF assms, of x] show "normalizeStep pf x = Some (stepOf pf x)"
    by (auto simp: stepOf_def)
qed

lemma normalizePlan_unfold:
  assumes "shrinks pf" and "asRecord pf v = Some rec"
  shows "normalizePlan pf v =
     Some (case rec of
        None \<Rightarrow> None
      | Some r \<Rightarrow>
          (let kept = List.map_filter (stepOf pf)
                 (case read_prop r ''steps'' of JArr xs \<Rightarrow> xs | _ \<Rightarrow> [])
           in if kept = [] then None else Some \<lparr>steps = kept\<rparr>))"
  using assms
  by (auto simp: normalizePlan_def normalizeSteps_shrinks Let_def List.map_filter_simps
      split: option.splits jsval.splits)

text \<open>
  C3. \<^verbatim>\<open>normalizeStep\<close> and \<^verbatim>\<open>normalizePlan\<close> return on every input (they have no throwing
  path, and \<^verbatim>\<open>asRecord\<close>'s recursion ends because a parsed string is shorter than its
  text). They return \<^verbatim>\<open>null\<close> for a text that is not JSON and for a value that does not
  resolve to a record; \<^verbatim>\<open>normalizeStep\<close> returns \<^verbatim>\<open>null\<close> when \<^verbatim>\<open>description\<close> is
  missing, not text or empty. \<^verbatim>\<open>normalizePlan\<close> keeps, in input order, the entries of
  \<^verbatim>\<open>steps\<close> for which \<^verbatim>\<open>normalizeStep\<close> gives a step (taking a \<^verbatim>\<open>steps\<close> field that is
  not an array as empty) and returns \<^verbatim>\<open>null\<close> when none is kept, so it never returns a
  Plan without steps.
\<close>

theorem normalizers_total:
  assumes "shrinks pf"
  shows "(\<exists>r. normalizeStep pf v = Some r) \<and> (\<exists>r. normalizePlan pf v = Some r)
    \<and> (JSON_parse pf s = None \<longrightarrow>
          normalizeStep pf (JStr s) = Some None \<and> normalizePlan pf (JStr s) = Some None)
    \<and> (asRecord pf v = Some None \<longrightarrow>
          normalizeStep pf v = Some None \<and> normalizePlan pf v = Some None)
    \<and> (\<forall>r. asRecord pf v = Some (Some r) \<longrightarrow>
          ((\<forall>d. read_prop r ''description'' = JStr d \<longrightarrow> d = []) \<longrightarrow>
             normalizeStep pf v = Some None)
          \<and> ((\<forall>xs. read_prop r ''steps'' = JArr xs \<longrightarrow> (\<forall>x \<in> set xs. stepOf pf x = None)) \<longrightarrow>
             normalizePlan pf v = Some None)
          \<and> normalizePlan pf v =
              Some (let kept = List.map_filter (stepOf pf)
                       (case read_prop r ''steps'' of JArr xs \<Rightarrow> xs | _ \<Rightarrow> [])
                    in if kept = [] then None else Some \<lparr>steps = kept\<rparr>))
    \<and> (\<forall>p. normalizePlan pf v = Some (Some p) \<longrightarrow> steps p \<noteq> [])"
proof -
  obtain rec where rec: "asRecord pf v = Some rec"
    using asRecord_returns [OF assms] by blast
  have step: "\<exists>r. normalizeStep pf v = Some r"
    by (rule normalizeStep_returns [OF assms])
  have plan: "\<exists>r. normalizePlan pf v = Some r"
    by (simp add: normalizePlan_unfold [OF assms rec])
  have bad: "JSON_parse pf s = None \<longrightarrow>
      normalizeStep pf (JStr s) = Some None \<and> normalizePlan pf (JStr s) = Some None"
    by (simp add: normalizeStep_def normalizePlan_def asRecord_JStr)
  have norec: "asRecord pf v = Some None \<longrightarrow>
      normalizeStep pf v = Some None \<and> normalizePlan pf v = Some None"
    by (simp add: normalizeStep_def normalizePlan_def)
  have nodesc: "\<forall>r. asRecord pf v = Some (Some r) \<longrightarrow>
      (\<forall>d. read_prop r ''description'' = JStr d \<longrightarrow> d = []) \<longrightarrow>
      normalizeStep pf v = Some None"
    by (auto simp: normalizeStep_unfold split: jsval.splits)
  have eq: "\<forall>r. asRecord pf v = Some (Some r) \<longrightarrow>
      normalizePlan pf v =
        Some (let kept = List.map_filter (stepOf pf)
                 (case read_prop r ''steps'' of JArr xs \<Rightarrow> xs | _ \<Rightarrow> [])
              in if kept = [] then None else Some \<lparr>steps = kept\<rparr>)"
    using normalizePlan_unfold [OF assms] by fastforce
  have nosteps: "\<forall>r. asRecord pf v = Some (Some r) \<longrightarrow>
      (\<forall>xs. read_prop r ''steps'' = JArr xs \<longrightarrow> (\<forall>x \<in> set xs. stepOf pf x = None)) \<longrightarrow>
      normalizePlan pf v = Some None"
  proof (intro allI impI)
    fix r
    assume r: "asRecord pf v = Some (Some r)"
      and fail: "\<forall>xs. read_prop r ''steps'' = JArr xs \<longrightarrow> (\<forall>x \<in> set xs. stepOf pf x = None)"
    have "List.map_filter (stepOf pf)
        (case read_prop r ''steps'' of JArr xs \<Rightarrow> xs | _ \<Rightarrow> []) = []"
      using fail by (cases "read_prop r ''steps''") (auto simp: List.map_filter_def)
    then show "normalizePlan pf v = Some None"
      by (simp add: normalizePlan_unfold [OF assms r])
  qed
  have nonempty: "\<forall>p. normalizePlan pf v = Some (Some p) \<longrightarrow> steps p \<noteq> []"
    using normalizePlan_unfold [OF assms rec]
    by (auto simp: Let_def split: option.splits if_splits)
  from step plan bad norec nodesc nosteps eq nonempty show ?thesis by blast
qed

theorem normalizers_total_witness:
  "shrinks (host demoTable)
   \<and> JSON_parse (host demoTable) ''not json'' = None
   \<and> normalizeStep (host demoTable) (JStr ''not json'') = Some None
   \<and> normalizePlan (host demoTable) (JStr ''not json'') = Some None
   \<and> asRecord (host demoTable) (JNum (Fin 1)) = Some None
   \<and> normalizePlan (host demoTable) (JNum (Fin 1)) = Some None
   \<and> asRecord (host demoTable) (JObj [(''description'', JStr '''')])
        = Some (Some (JObj [(''description'', JStr '''')]))
   \<and> normalizeStep (host demoTable) (JObj [(''description'', JStr '''')]) = Some None
   \<and> normalizePlan (host demoTable) (JObj [(''steps'', JStr ''x'')]) = Some None
   \<and> normalizePlan (host demoTable) (JObj [(''steps'', JArr [JNull])]) = Some None
   \<and> asRecord (host demoTable) (JStr planText) = Some (Some planValue)
   \<and> normalizePlan (host demoTable) (JStr planText)
        = Some (Some \<lparr>steps = [\<lparr>description = ''a'', status = Pending\<rparr>,
                                \<lparr>description = ''b'', status = Completed\<rparr>]\<rparr>)"
proof -
  note T = normalizers_total [OF shrinks_demo]
  have s1: "normalizePlan (host demoTable) (JObj [(''steps'', JStr ''x'')]) = Some None"
    using T [of "JObj [(''steps'', JStr ''x'')]" "[]"] by simp
  have s2: "normalizePlan (host demoTable) (JObj [(''steps'', JArr [JNull])]) = Some None"
    using T [of "JObj [(''steps'', JArr [JNull])]" "[]"]
    by (simp add: stepOf_def normalizeStep_def)
  have a: "normalizeStep (host demoTable) (JStr ''not json'') = Some None
      \<and> normalizePlan (host demoTable) (JStr ''not json'') = Some None"
    using T [of "JNull" "''not json''"] parse_not_json by blast
  have b: "normalizePlan (host demoTable) (JNum (Fin 1)) = Some None"
    using T [of "JNum (Fin 1)" "[]"] by simp
  have c: "normalizeStep (host demoTable) (JObj [(''description'', JStr '''')]) = Some None"
    using T [of "JObj [(''description'', JStr '''')]" "[]"] by simp
  have r: "asRecord (host demoTable) (JStr planText) = Some (Some planValue)"
    by (simp add: asRecord_JStr parse_planText planValue_def)
  have d: "normalizePlan (host demoTable) (JStr planText)
        = Some (Some \<lparr>steps = [\<lparr>description = ''a'', status = Pending\<rparr>,
                                \<lparr>description = ''b'', status = Completed\<rparr>]\<rparr>)"
    using T [of "JStr planText" "[]"] r
    by (simp add: planValue_def stepOf_def normalizeStep_def List.map_filter_simps)
  from a b c d r s1 s2 shrinks_demo parse_not_json show ?thesis by simp
qed


subsection \<open>The Number value of an integer\<close>

lemma bitLength_eq: "2 ^ k \<le> n \<Longrightarrow> n < 2 ^ Suc k \<Longrightarrow> bitLength n = Suc k"
proof (induction k arbitrary: n)
  case 0
  then have "n = 1" by simp
  then show ?case by (simp add: bitLength.simps)
next
  case (Suc k)
  from Suc.prems have "2 ^ k \<le> n div 2" and "n div 2 < 2 ^ Suc k" by simp_all
  then have "bitLength (n div 2) = Suc k" by (rule Suc.IH)
  moreover from Suc.prems have "n \<noteq> 0" by auto
  ultimately show ?case by (subst bitLength.simps) simp
qed

lemma bitLength_less: "n < 2 ^ bitLength n"
proof (induction n rule: bitLength.induct)
  case (1 n)
  show ?case
  proof (cases "n = 0")
    case True
    then show ?thesis by (simp add: bitLength.simps)
  next
    case False
    with 1 have "n div 2 < 2 ^ bitLength (n div 2)" by simp
    then have "n < 2 * 2 ^ bitLength (n div 2)" by linarith
    with False show ?thesis by (subst bitLength.simps) simp
  qed
qed

lemma bitLength_ge: "n \<noteq> 0 \<Longrightarrow> 2 ^ (bitLength n - 1) \<le> n"
proof (induction n rule: bitLength.induct)
  case (1 n)
  show ?case
  proof (cases "n div 2 = 0")
    case True
    with 1(2) have "n = 1" by (simp add: div_eq_0_iff)
    then show ?thesis by (simp add: bitLength.simps)
  next
    case False
    with 1 have "2 ^ (bitLength (n div 2) - 1) \<le> n div 2" by simp
    then have "2 * 2 ^ (bitLength (n div 2) - 1) \<le> n" by linarith
    moreover from False have "bitLength (n div 2) \<noteq> 0" by (subst bitLength.simps) simp
    ultimately show ?thesis using 1(2)
      by (subst bitLength.simps) (simp add: power_Suc [symmetric] del: power_Suc)
  qed
qed

text \<open>Rounding never goes below the leading bit.\<close>

lemma roundMagnitude_ge:
  assumes "2 ^ k \<le> a" and "53 \<le> k"
  shows "2 ^ k \<le> roundMagnitude a"
proof -
  let ?l = "bitLength a - 1"
  let ?e = "bitLength a - 53"
  have "(0::nat) < 2 ^ k" by simp
  with assms(1) have a0: "a \<noteq> 0" by linarith
  have "a < 2 ^ bitLength a" by (rule bitLength_less)
  with assms(1) have "(2::nat) ^ k < 2 ^ bitLength a" by linarith
  then have kl: "k \<le> ?l" by simp
  with assms(2) have e: "?e \<le> ?l" by simp
  have top: "2 ^ ?l \<le> a" by (rule bitLength_ge [OF a0])
  have split: "(2::nat) ^ ?l = 2 ^ (?l - ?e) * 2 ^ ?e"
    using e by (simp add: power_add [symmetric])
  with top have "2 ^ (?l - ?e) * 2 ^ ?e \<le> a" by simp
  then have "2 ^ (?l - ?e) \<le> a div 2 ^ ?e"
    by (simp add: less_eq_div_iff_mult_less_eq)
  then have "2 ^ (?l - ?e) * 2 ^ ?e \<le> (a div 2 ^ ?e) * 2 ^ ?e" by simp
  also have "\<dots> \<le> roundMagnitude a"
    by (simp add: roundMagnitude_def Let_def)
  finally have "2 ^ ?l \<le> roundMagnitude a" using split by simp
  moreover from kl have "(2::nat) ^ k \<le> 2 ^ ?l" by (rule power_increasing) simp
  ultimately show ?thesis by (rule order_trans [rotated])
qed

lemma numberOfInt_small: "\<bar>n\<bar> < 2 ^ 53 \<Longrightarrow> numberOfInt n = Fin (of_int n)"
  unfolding numberOfInt_def by (simp only: if_True)


text \<open>An integer from \<open>2 ^ 1024\<close> on has no finite Number value.\<close>

lemma numberOfInt_overflow:
  assumes "2 ^ 1024 \<le> n"
  shows "numberOfInt n = PosInf"
proof -
  have "(0::int) \<le> 2 ^ 1024" by (rule zero_le_power) simp
  with assms have pos: "0 \<le> n" by linarith
  have "(2::int) ^ 53 \<le> 2 ^ 1024" by (rule power_increasing) simp_all
  with assms pos have big: "\<not> \<bar>n\<bar> < 2 ^ 53" by linarith
  from assms have "nat (2 ^ 1024) \<le> nat n" by (rule nat_mono)
  moreover have "nat ((2::int) ^ 1024) = 2 ^ 1024"
    by (simp only: nat_power_eq nat_numeral zero_le_numeral)
  moreover from pos have "nat \<bar>n\<bar> = nat n" by simp
  ultimately have "(2::nat) ^ 1024 \<le> nat \<bar>n\<bar>" by (simp only:)
  then have r: "2 ^ 1024 \<le> roundMagnitude (nat \<bar>n\<bar>)"
    by (rule roundMagnitude_ge) simp
  from pos have nn: "\<not> n < 0" by simp
  show ?thesis
    unfolding numberOfInt_def by (simp only: big r nn if_True if_False)
qed

text \<open>The first integer that is not a double rounds to its even neighbour.\<close>

lemma numberOfInt_rounds: "numberOfInt (2 ^ 53 + 1) = Fin (2 ^ 53)"
proof -
  have b: "bitLength (2 ^ 53 + 1) = Suc 53"
    by (rule bitLength_eq) simp_all
  have t: "roundMagnitude (2 ^ 53 + 1) = 2 ^ 53"
    unfolding roundMagnitude_def b by (simp add: Let_def)
  have "\<not> \<bar>2 ^ 53 + 1 :: int\<bar> < 2 ^ 53" by simp
  moreover have n: "nat \<bar>2 ^ 53 + 1 :: int\<bar> = 2 ^ 53 + 1" by simp
  moreover have "\<not> (2 ^ 1024 \<le> (2 ^ 53 :: nat))" by simp
  ultimately show ?thesis
    unfolding numberOfInt_def n t by simp
qed


lemma digitsValue_2: "digitsValue ''2'' = 2"
  by (simp add: digitsValue_def)


lemma parseInt10_2: "parseInt10 ''2'' = Fin 2"
  by (simp add: parseInt10_def isStrWhiteSpace_def isDigit_def digitsValue_2 numberOfInt_small)


text \<open>A run of digits beyond the doubles: \<^verbatim>\<open>parseInt\<close> of 1 followed by 400 zeros is
  \<^verbatim>\<open>Infinity\<close>.\<close>

lemma foldl_zeros:
  "foldl (\<lambda>acc c. 10 * acc + (int (of_char c) - 48)) a (replicate k (CHR ''0'')) = a * 10 ^ k"
  by (induction k arbitrary: a) simp_all

lemma digitsValue_one_zeros: "digitsValue (CHR ''1'' # replicate k (CHR ''0'')) = 10 ^ k"
  by (simp add: digitsValue_def foldl_zeros)

lemma takeWhile_zeros: "takeWhile isDigit (replicate k (CHR ''0'')) = replicate k (CHR ''0'')"
  by (induction k) (simp_all add: isDigit_def)

lemma pow_bound: "(2::int) ^ 1024 \<le> 10 ^ 400"
proof -
  have "(2::int) ^ 1024 \<le> 2 ^ 1200" by (rule power_increasing) simp_all
  also have "\<dots> = (2 ^ 3) ^ 400" by (simp only: power_mult [symmetric]) simp
  also have "\<dots> \<le> 10 ^ 400" by (rule power_mono) simp_all
  finally show ?thesis .
qed

lemma parseInt10_long: "parseInt10 (CHR ''1'' # replicate 400 (CHR ''0'')) = PosInf"
proof -
  have "parseInt10 (CHR ''1'' # replicate 400 (CHR ''0''))
      = numberOfInt (digitsValue (CHR ''1'' # replicate 400 (CHR ''0'')))"
    by (simp add: parseInt10_def isStrWhiteSpace_def isDigit_def takeWhile_zeros Let_def)
  also have "\<dots> = PosInf"
    by (rule numberOfInt_overflow) (simp only: digitsValue_one_zeros pow_bound)
  finally show ?thesis .
qed


subsection \<open>The update normalizer\<close>


lemma parseIndex_string: "parseIndex pf (JStr s) = Inr (parseInt10 s)"
  by (simp add: parseIndex_def)


lemma normalizeUpdateResult_unfold:
  "asRecord pf v = Some (Some r) \<Longrightarrow>
   normalizeUpdateResult pf v =
     Some (case parseIndex pf (read_prop r ''index'') of
        Inl e \<Rightarrow> Inl e
      | Inr parsed \<Rightarrow>
          Inr (if \<not> isFinite parsed \<or> num_lt parsed (Fin 0) then None
               else Some \<lparr>index = parsed,
                 new_description =
                   (case read_prop r ''description'' of JStr d \<Rightarrow> Some d | _ \<Rightarrow> None),
                 new_status =
                   (if read_prop r ''status'' = JStr ''completed'' then Some Completed
                    else if read_prop r ''status'' = JStr ''pending'' then Some Pending
                    else None)\<rparr>))"
  by (simp add: normalizeUpdateResult_def)

lemma normalizeUpdateResult_accepts:
  assumes "asRecord pf v = Some (Some r)"
    and "parseIndex pf (read_prop r ''index'') = Inr n"
    and "isFinite n" and "\<not> num_lt n (Fin 0)"
  shows "\<exists>u. normalizeUpdateResult pf v = Some (Inr (Some u)) \<and> index u = n
      \<and> (\<forall>d. new_description u = Some d \<longleftrightarrow> read_prop r ''description'' = JStr d)
      \<and> (new_status u = Some Completed \<longleftrightarrow> read_prop r ''status'' = JStr ''completed'')
      \<and> (new_status u = Some Pending \<longleftrightarrow> read_prop r ''status'' = JStr ''pending'')"
  using assms(2-4)
  by (auto simp: normalizeUpdateResult_unfold [OF assms(1)] split: jsval.splits)




text \<open>Two index fields outside the amended statement's positive part: a run of digits
  beyond the doubles gives \<^verbatim>\<open>null\<close>, and an object with an own \<^verbatim>\<open>toString\<close> that is not a
  function makes \<^verbatim>\<open>String\<close> throw, which nothing in \<^verbatim>\<open>normalizeUpdateResult\<close> catches.\<close>

lemma long_index_rejected:
  "normalizeUpdateResult pf (JObj [(''index'', JStr (CHR ''1'' # replicate 400 (CHR ''0'')))])
     = Some (Inr None)"
  by (simp add: normalizeUpdateResult_def parseIndex_string parseInt10_long)

lemma own_toString_throws:
  "normalizeUpdateResult pf (JObj [(''index'', JObj [(''toString'', JNum (Fin 1))])])
     = Some (Inl TypeError)"
  by (simp add: normalizeUpdateResult_def parseIndex_def)


lemma normalizeUpdateResult_update:
  assumes "asRecord pf v = Some (Some (JObj [(''index'', JStr ''2''), (''status'', JStr ''completed'')]))"
  shows "normalizeUpdateResult pf v
       = Some (Inr (Some \<lparr>index = Fin 2, new_description = None, new_status = Some Completed\<rparr>))"
  by (simp add: normalizeUpdateResult_unfold [OF assms] parseIndex_string parseInt10_2)

text \<open>
  C10. \<^verbatim>\<open>asRecord\<close> parses again whenever parsing gives a string: for a value that is w
  wrapped in any number n of levels of JSON string encoding, \<^verbatim>\<open>asRecord\<close> and each of the
  four normalizers give what they give for w itself. So a wrapped object resolves to that
  object, and each normalizer accepts it: \<^verbatim>\<open>normalizeStep\<close> returns the step of a wrapped
  record with a non-empty description, \<^verbatim>\<open>normalizePlan\<close> the plan of a wrapped record with
  steps that normalize, \<^verbatim>\<open>normalizeCreateResult\<close> the plan of a wrapped record that is such
  a plan or holds one under \<^verbatim>\<open>plan\<close>, and \<^verbatim>\<open>normalizeUpdateResult\<close> an update for a
  wrapped record with a finite index that is not below 0.
\<close>

theorem asRecord_unwraps_recursively:
  assumes "unwrap pf n v = Some w" and "shrinks pf"
  shows "asRecord pf v = asRecord pf w
    \<and> normalizeStep pf v = normalizeStep pf w
    \<and> normalizePlan pf v = normalizePlan pf w
    \<and> normalizeCreateResult pf v = normalizeCreateResult pf w
    \<and> normalizeUpdateResult pf v = normalizeUpdateResult pf w
    \<and> (\<forall>kvs. w = JObj kvs \<longrightarrow>
          asRecord pf v = Some (Some (JObj kvs))
        \<and> (\<forall>d. read_prop w ''description'' = JStr d \<and> d \<noteq> [] \<longrightarrow>
              normalizeStep pf v =
                Some (Some \<lparr>description = d,
                  status = (if read_prop w ''status'' = JStr ''completed''
                            then Completed else Pending)\<rparr>))
        \<and> (\<forall>xs. read_prop w ''steps'' = JArr xs \<and> List.map_filter (stepOf pf) xs \<noteq> [] \<longrightarrow>
              normalizePlan pf v = Some (Some \<lparr>steps = List.map_filter (stepOf pf) xs\<rparr>)
              \<and> (\<not> truthy (read_prop w ''plan'') \<longrightarrow>
                   normalizeCreateResult pf v =
                     Some (Some \<lparr>steps = List.map_filter (stepOf pf) xs\<rparr>)))
        \<and> (\<forall>pkvs xs. read_prop w ''plan'' = JObj pkvs
              \<and> read_prop (JObj pkvs) ''steps'' = JArr xs
              \<and> List.map_filter (stepOf pf) xs \<noteq> [] \<longrightarrow>
              normalizeCreateResult pf v =
                Some (Some \<lparr>steps = List.map_filter (stepOf pf) xs\<rparr>))
        \<and> (\<forall>i. parseIndex pf (read_prop w ''index'') = Inr i
              \<and> isFinite i \<and> \<not> num_lt i (Fin 0) \<longrightarrow>
              (\<exists>u. normalizeUpdateResult pf v = Some (Inr (Some u)) \<and> index u = i)))"
proof -
  have eq: "asRecord pf v = asRecord pf w"
    by (rule asRecord_unwrap [OF assms(1)])
  then have same: "normalizeStep pf v = normalizeStep pf w"
      "normalizePlan pf v = normalizePlan pf w"
      "normalizeCreateResult pf v = normalizeCreateResult pf w"
      "normalizeUpdateResult pf v = normalizeUpdateResult pf w"
    by (simp_all add: normalizeStep_def normalizePlan_def normalizeCreateResult_def
        normalizeUpdateResult_def)
  have obj: "\<forall>kvs. w = JObj kvs \<longrightarrow>
          asRecord pf v = Some (Some (JObj kvs))
        \<and> (\<forall>d. read_prop w ''description'' = JStr d \<and> d \<noteq> [] \<longrightarrow>
              normalizeStep pf v =
                Some (Some \<lparr>description = d,
                  status = (if read_prop w ''status'' = JStr ''completed''
                            then Completed else Pending)\<rparr>))
        \<and> (\<forall>xs. read_prop w ''steps'' = JArr xs \<and> List.map_filter (stepOf pf) xs \<noteq> [] \<longrightarrow>
              normalizePlan pf v = Some (Some \<lparr>steps = List.map_filter (stepOf pf) xs\<rparr>)
              \<and> (\<not> truthy (read_prop w ''plan'') \<longrightarrow>
                   normalizeCreateResult pf v =
                     Some (Some \<lparr>steps = List.map_filter (stepOf pf) xs\<rparr>)))
        \<and> (\<forall>pkvs xs. read_prop w ''plan'' = JObj pkvs
              \<and> read_prop (JObj pkvs) ''steps'' = JArr xs
              \<and> List.map_filter (stepOf pf) xs \<noteq> [] \<longrightarrow>
              normalizeCreateResult pf v =
                Some (Some \<lparr>steps = List.map_filter (stepOf pf) xs\<rparr>))
        \<and> (\<forall>i. parseIndex pf (read_prop w ''index'') = Inr i
              \<and> isFinite i \<and> \<not> num_lt i (Fin 0) \<longrightarrow>
              (\<exists>u. normalizeUpdateResult pf v = Some (Inr (Some u)) \<and> index u = i))"
  proof (intro allI impI)
    fix kvs
    assume w: "w = JObj kvs"
    with eq have r: "asRecord pf v = Some (Some w)" by simp
    have step: "\<forall>d. read_prop w ''description'' = JStr d \<and> d \<noteq> [] \<longrightarrow>
              normalizeStep pf v =
                Some (Some \<lparr>description = d,
                  status = (if read_prop w ''status'' = JStr ''completed''
                            then Completed else Pending)\<rparr>)"
      by (auto simp: normalizeStep_unfold [OF r])
    have plan: "normalizePlan pf v = Some (Some \<lparr>steps = List.map_filter (stepOf pf) xs\<rparr>)"
      if "read_prop w ''steps'' = JArr xs" and "List.map_filter (stepOf pf) xs \<noteq> []" for xs
      using that by (simp add: normalizePlan_unfold [OF assms(2) r])
    have create1: "normalizeCreateResult pf v =
          Some (Some \<lparr>steps = List.map_filter (stepOf pf) xs\<rparr>)"
      if "read_prop w ''steps'' = JArr xs" and "List.map_filter (stepOf pf) xs \<noteq> []"
        and "\<not> truthy (read_prop w ''plan'')" for xs
    proof -
      have "asRecord pf w = Some (Some w)" by (simp add: w)
      with that show ?thesis
        by (simp add: normalizeCreateResult_def r normalizePlan_unfold [OF assms(2)])
    qed
    have create2: "normalizeCreateResult pf v =
          Some (Some \<lparr>steps = List.map_filter (stepOf pf) xs\<rparr>)"
      if "read_prop w ''plan'' = JObj pkvs" and "read_prop (JObj pkvs) ''steps'' = JArr xs"
        and "List.map_filter (stepOf pf) xs \<noteq> []" for pkvs xs
    proof -
      have "asRecord pf (JObj pkvs) = Some (Some (JObj pkvs))" by simp
      with that show ?thesis
        by (simp add: normalizeCreateResult_def r normalizePlan_unfold [OF assms(2)])
    qed
    have update: "\<forall>i. parseIndex pf (read_prop w ''index'') = Inr i
              \<and> isFinite i \<and> \<not> num_lt i (Fin 0) \<longrightarrow>
              (\<exists>u. normalizeUpdateResult pf v = Some (Inr (Some u)) \<and> index u = i)"
      using normalizeUpdateResult_accepts [OF r] by blast
    from r w step plan create1 create2 update
    show "asRecord pf v = Some (Some (JObj kvs))
        \<and> (\<forall>d. read_prop w ''description'' = JStr d \<and> d \<noteq> [] \<longrightarrow>
              normalizeStep pf v =
                Some (Some \<lparr>description = d,
                  status = (if read_prop w ''status'' = JStr ''completed''
                            then Completed else Pending)\<rparr>))
        \<and> (\<forall>xs. read_prop w ''steps'' = JArr xs \<and> List.map_filter (stepOf pf) xs \<noteq> [] \<longrightarrow>
              normalizePlan pf v = Some (Some \<lparr>steps = List.map_filter (stepOf pf) xs\<rparr>)
              \<and> (\<not> truthy (read_prop w ''plan'') \<longrightarrow>
                   normalizeCreateResult pf v =
                     Some (Some \<lparr>steps = List.map_filter (stepOf pf) xs\<rparr>)))
        \<and> (\<forall>pkvs xs. read_prop w ''plan'' = JObj pkvs
              \<and> read_prop (JObj pkvs) ''steps'' = JArr xs
              \<and> List.map_filter (stepOf pf) xs \<noteq> [] \<longrightarrow>
              normalizeCreateResult pf v =
                Some (Some \<lparr>steps = List.map_filter (stepOf pf) xs\<rparr>))
        \<and> (\<forall>i. parseIndex pf (read_prop w ''index'') = Inr i
              \<and> isFinite i \<and> \<not> num_lt i (Fin 0) \<longrightarrow>
              (\<exists>u. normalizeUpdateResult pf v = Some (Inr (Some u)) \<and> index u = i))"
      by blast
  qed
  from eq same obj show ?thesis by blast
qed

lemma unwrap_step:
  "unwrap (host demoTable) 3 (JStr (quoted (quoted stepText)))
     = Some (JObj [(''description'', JStr ''a'')])"
  by (simp add: numeral_3_eq_3 host_def demoTable_def quoted_def stepText_def
      planText_def updateText_def createText_def)

lemma unwrap_plan: "unwrap (host demoTable) 2 (JStr (quoted planText)) = Some planValue"
  by (simp add: numeral_2_eq_2 host_def demoTable_def quoted_def stepText_def
      planText_def updateText_def createText_def)

lemma unwrap_create:
  "unwrap (host demoTable) 2 (JStr (quoted createText)) = Some (JObj [(''plan'', planValue)])"
  by (simp add: numeral_2_eq_2 host_def demoTable_def quoted_def stepText_def
      planText_def updateText_def createText_def)

lemma unwrap_update: "unwrap (host demoTable) 2 (JStr (quoted updateText)) = Some updateValue"
  by (simp add: numeral_2_eq_2 host_def demoTable_def quoted_def stepText_def
      planText_def updateText_def createText_def)

theorem asRecord_unwraps_recursively_witness:
  "unwrap (host demoTable) 3 (JStr (quoted (quoted stepText)))
     = Some (JObj [(''description'', JStr ''a'')])
   \<and> shrinks (host demoTable)
   \<and> asRecord (host demoTable) (JStr (quoted (quoted stepText)))
     = Some (Some (JObj [(''description'', JStr ''a'')]))
   \<and> normalizeStep (host demoTable) (JStr (quoted (quoted stepText)))
     = Some (Some \<lparr>description = ''a'', status = Pending\<rparr>)
   \<and> unwrap (host demoTable) 2 (JStr (quoted planText)) = Some planValue
   \<and> normalizePlan (host demoTable) (JStr (quoted planText))
     = Some (Some \<lparr>steps = [\<lparr>description = ''a'', status = Pending\<rparr>,
                             \<lparr>description = ''b'', status = Completed\<rparr>]\<rparr>)
   \<and> unwrap (host demoTable) 2 (JStr (quoted createText))
     = Some (JObj [(''plan'', planValue)])
   \<and> normalizeCreateResult (host demoTable) (JStr (quoted createText))
     = Some (Some \<lparr>steps = [\<lparr>description = ''a'', status = Pending\<rparr>,
                             \<lparr>description = ''b'', status = Completed\<rparr>]\<rparr>)
   \<and> unwrap (host demoTable) 2 (JStr (quoted updateText)) = Some updateValue
   \<and> normalizeUpdateResult (host demoTable) (JStr (quoted updateText))
     = Some (Inr (Some \<lparr>index = Fin 2, new_description = None, new_status = Some Completed\<rparr>))"
proof -
  note S = asRecord_unwraps_recursively [OF unwrap_step shrinks_demo]
  note P = asRecord_unwraps_recursively [OF unwrap_plan shrinks_demo]
  note C = asRecord_unwraps_recursively [OF unwrap_create shrinks_demo]
  note U = asRecord_unwraps_recursively [OF unwrap_update shrinks_demo]
  have s: "normalizeStep (host demoTable) (JStr (quoted (quoted stepText)))
     = Some (Some \<lparr>description = ''a'', status = Pending\<rparr>)"
    and sr: "asRecord (host demoTable) (JStr (quoted (quoted stepText)))
     = Some (Some (JObj [(''description'', JStr ''a'')]))"
    using S by (simp_all add: normalizeStep_def)
  have pv: "normalizePlan (host demoTable) planValue
     = Some (Some \<lparr>steps = [\<lparr>description = ''a'', status = Pending\<rparr>,
                             \<lparr>description = ''b'', status = Completed\<rparr>]\<rparr>)"
    by (simp add: planValue_def normalizePlan_def normalizeStep_def)
  have p: "normalizePlan (host demoTable) (JStr (quoted planText))
     = Some (Some \<lparr>steps = [\<lparr>description = ''a'', status = Pending\<rparr>,
                             \<lparr>description = ''b'', status = Completed\<rparr>]\<rparr>)"
    using P pv by simp
  have "truthy (read_prop (JObj [(''plan'', planValue)]) ''plan'')"
    by (simp add: planValue_def)
  then have "normalizeCreateResult (host demoTable) (JObj [(''plan'', planValue)])
     = normalizePlan (host demoTable) planValue"
    by (simp add: normalizeCreateResult_def)
  with C pv have c: "normalizeCreateResult (host demoTable) (JStr (quoted createText))
     = Some (Some \<lparr>steps = [\<lparr>description = ''a'', status = Pending\<rparr>,
                             \<lparr>description = ''b'', status = Completed\<rparr>]\<rparr>)"
    by simp
  have "normalizeUpdateResult (host demoTable) updateValue
     = Some (Inr (Some \<lparr>index = Fin 2, new_description = None, new_status = Some Completed\<rparr>))"
    by (rule normalizeUpdateResult_update) (simp add: updateValue_def)
  with U have u: "normalizeUpdateResult (host demoTable) (JStr (quoted updateText))
     = Some (Inr (Some \<lparr>index = Fin 2, new_description = None, new_status = Some Completed\<rparr>))"
    by simp
  from s sr p c u unwrap_step unwrap_plan unwrap_create unwrap_update shrinks_demo
  show ?thesis by simp
qed

text \<open>
  C7. For an update whose index is a position i of the Plan, \<^verbatim>\<open>updateStep\<close> stores a new
  Plan object with as many steps, in which every step but the one at i equals the step
  before, and the step at i has the update's description when it carries one and its old
  description otherwise, and likewise for the status. A tool result that resolves to
  \<^verbatim>\<open>{"index":"2","status":"completed"}\<close>, applied by the update binding to a Plan of
  three steps, sets the status of the step at index 2 to completed and keeps its
  description.
\<close>

theorem updateStep_patches_one_step:
  assumes "plan st = Some (r, p)" and "i < length (steps p)" and "index u = Fin (of_nat i)"
    and "asRecord pf v = Some (Some (JObj [(''index'', JStr ''2''), (''status'', JStr ''completed'')]))"
    and "plan st3 = Some (r3, \<lparr>steps = [s0, s1, s2]\<rparr>)"
  shows "(\<exists>p'. plan (updateStep u st) = Some (fresh st, p')
      \<and> length (steps p') = length (steps p)
      \<and> (\<forall>j < length (steps p). j \<noteq> i \<longrightarrow> steps p' ! j = steps p ! j)
      \<and> description (steps p' ! i) =
          (case new_description u of Some d \<Rightarrow> d | None \<Rightarrow> description (steps p ! i))
      \<and> status (steps p' ! i) =
          (case new_status u of Some s \<Rightarrow> s | None \<Rightarrow> status (steps p ! i)))
    \<and> updateBinding pf v st3 =
        Some (Inr (st3\<lparr>plan := Some (fresh st3, \<lparr>steps = [s0, s1, s2\<lparr>status := Completed\<rparr>]\<rparr>),
                       fresh := Suc (fresh st3)\<rparr>))"
proof -
  have general: "\<exists>p'. plan (updateStep u st) = Some (fresh st, p')
      \<and> length (steps p') = length (steps p)
      \<and> (\<forall>j < length (steps p). j \<noteq> i \<longrightarrow> steps p' ! j = steps p ! j)
      \<and> description (steps p' ! i) =
          (case new_description u of Some d \<Rightarrow> d | None \<Rightarrow> description (steps p ! i))
      \<and> status (steps p' ! i) =
          (case new_status u of Some s \<Rightarrow> s | None \<Rightarrow> status (steps p ! i))"
    using assms(2) by (simp add: updateStep_in_range [OF assms(1-3)])
  have "updateStep \<lparr>index = Fin 2, new_description = None, new_status = Some Completed\<rparr> st3
      = st3\<lparr>plan := Some (fresh st3, \<lparr>steps = [s0, s1, s2\<lparr>status := Completed\<rparr>]\<rparr>),
            fresh := Suc (fresh st3)\<rparr>"
    using updateStep_in_range [OF assms(5), of 2
        "\<lparr>index = Fin 2, new_description = None, new_status = Some Completed\<rparr>"]
    by simp
  then have scenario: "updateBinding pf v st3 =
        Some (Inr (st3\<lparr>plan := Some (fresh st3, \<lparr>steps = [s0, s1, s2\<lparr>status := Completed\<rparr>]\<rparr>),
                       fresh := Suc (fresh st3)\<rparr>))"
    by (simp add: updateBinding_def normalizeUpdateResult_update [OF assms(4)])
  from general scenario show ?thesis by blast
qed

theorem updateStep_patches_one_step_witness:
  "plan \<lparr>plan = Some (0, \<lparr>steps = [\<lparr>description = ''a'', status = Pending\<rparr>,
                                    \<lparr>description = ''b'', status = Pending\<rparr>,
                                    \<lparr>description = ''c'', status = Pending\<rparr>]\<rparr>), fresh = 1\<rparr>
     = Some (0, \<lparr>steps = [\<lparr>description = ''a'', status = Pending\<rparr>,
                          \<lparr>description = ''b'', status = Pending\<rparr>,
                          \<lparr>description = ''c'', status = Pending\<rparr>]\<rparr>)
   \<and> (1 :: nat) < length [\<lparr>description = ''a'', status = Pending\<rparr>,
                           \<lparr>description = ''b'', status = Pending\<rparr>,
                           \<lparr>description = ''c'', status = Pending\<rparr>]
   \<and> asRecord (host demoTable) (JStr updateText)
       = Some (Some (JObj [(''index'', JStr ''2''), (''status'', JStr ''completed'')]))
   \<and> plan (updateStep \<lparr>index = Fin 1, new_description = Some ''x'', new_status = None\<rparr>
        \<lparr>plan = Some (0, \<lparr>steps = [\<lparr>description = ''a'', status = Pending\<rparr>,
                                     \<lparr>description = ''b'', status = Pending\<rparr>,
                                     \<lparr>description = ''c'', status = Pending\<rparr>]\<rparr>), fresh = 1\<rparr>)
     = Some (1, \<lparr>steps = [\<lparr>description = ''a'', status = Pending\<rparr>,
                          \<lparr>description = ''x'', status = Pending\<rparr>,
                          \<lparr>description = ''c'', status = Pending\<rparr>]\<rparr>)
   \<and> updateBinding (host demoTable) (JStr updateText)
        \<lparr>plan = Some (0, \<lparr>steps = [\<lparr>description = ''a'', status = Pending\<rparr>,
                                     \<lparr>description = ''b'', status = Pending\<rparr>,
                                     \<lparr>description = ''c'', status = Pending\<rparr>]\<rparr>), fresh = 1\<rparr>
     = Some (Inr \<lparr>plan = Some (1, \<lparr>steps = [\<lparr>description = ''a'', status = Pending\<rparr>,
                                             \<lparr>description = ''b'', status = Pending\<rparr>,
                                             \<lparr>description = ''c'', status = Completed\<rparr>]\<rparr>),
                   fresh = 2\<rparr>)"
proof -
  let ?st = "\<lparr>plan = Some (0, \<lparr>steps = [\<lparr>description = ''a'', status = Pending\<rparr>,
                                     \<lparr>description = ''b'', status = Pending\<rparr>,
                                     \<lparr>description = ''c'', status = Pending\<rparr>]\<rparr>), fresh = 1\<rparr>"
  let ?p = "\<lparr>steps = [\<lparr>description = ''a'', status = Pending\<rparr>,
                       \<lparr>description = ''b'', status = Pending\<rparr>,
                       \<lparr>description = ''c'', status = Pending\<rparr>]\<rparr>"
  let ?u = "\<lparr>index = Fin 1, new_description = Some ''x'', new_status = None\<rparr>"
  have r: "asRecord (host demoTable) (JStr updateText)
       = Some (Some (JObj [(''index'', JStr ''2''), (''status'', JStr ''completed'')]))"
    by (simp add: asRecord_JStr parse_updateText updateValue_def)
  have h1: "plan ?st = Some (0, ?p)" by simp
  have h2: "1 < length (steps ?p)" by simp
  have h3: "index ?u = Fin (of_nat 1)" by simp
  note T = updateStep_patches_one_step [OF h1 h2 h3 r h1]
  from T have b: "updateBinding (host demoTable) (JStr updateText) ?st
     = Some (Inr \<lparr>plan = Some (1, \<lparr>steps = [\<lparr>description = ''a'', status = Pending\<rparr>,
                                             \<lparr>description = ''b'', status = Pending\<rparr>,
                                             \<lparr>description = ''c'', status = Completed\<rparr>]\<rparr>),
                   fresh = 2\<rparr>)"
    by simp
  have a: "plan (updateStep ?u ?st)
     = Some (1, \<lparr>steps = [\<lparr>description = ''a'', status = Pending\<rparr>,
                          \<lparr>description = ''x'', status = Pending\<rparr>,
                          \<lparr>description = ''c'', status = Pending\<rparr>]\<rparr>)"
    using updateStep_in_range [OF h1 h2 h3] by simp
  from a b r show ?thesis by simp
qed

section \<open>Properties of the request transformation\<close>

lemma joinElements_strings:
  "joinElements pf [] (map (\<lambda>p. JStr (f p)) ps) = Inr (concat (map f ps))"
  by (induction ps) auto

lemma isPart_not_nullish: "isPart p \<Longrightarrow> \<not> nullish p"
  by (cases p) (simp_all add: isPart_def)

lemma filter_err_parts:
  "list_all isPart parts \<Longrightarrow> filter_err isTextPart parts = Inr (filter isText parts)"
  by (induction parts)
     (auto simp: isTextPart_def get_prop_def isText_def dest: isPart_not_nullish)

lemma textOrEmpty_part: "isPart p \<Longrightarrow> textOrEmpty p = JStr (partText p)"
  by (cases p)
     (auto simp: isPart_def textOrEmpty_def partText_def Let_def
       split: jsval.splits option.splits)

lemma systemContent_message:
  assumes "isMessage m"
  shows "systemContent pf m = Inr (systemText m)"
proof -
  from assms obtain parts
    where c: "read_prop m ''content'' = JArr parts" and ps: "list_all isPart parts"
    by (cases m) (auto simp: isMessage_def split: jsval.splits)
  have "map textOrEmpty (filter isText parts) = map (\<lambda>p. JStr (partText p)) (filter isText parts)"
    using ps by (auto simp: list_all_iff textOrEmpty_part)
  then have "joinElements pf [] (map textOrEmpty (filter isText parts))
      = Inr (concat (map partText (filter isText parts)))"
    by (simp only: joinElements_strings)
  with c ps show ?thesis
    by (simp add: systemContent_def filter_err_parts systemText_def contentParts_def)
qed

lemma transformPart_part: "isPart p \<Longrightarrow> transformPart p = Inr (rebuildPart p)"
  by (auto simp: transformPart_def get_prop_def rebuildPart_def isText_def textOrEmpty_part
      dest: isPart_not_nullish)

lemma map_err_parts:
  "list_all isPart parts \<Longrightarrow> map_err transformPart parts = Inr (map rebuildPart parts)"
  by (induction parts) (auto simp: transformPart_part)

lemma transformContent_message:
  assumes "isMessage m"
  shows "transformContent m = Inr (map rebuildPart (contentParts m))"
proof -
  from assms obtain parts
    where c: "read_prop m ''content'' = JArr parts" and ps: "list_all isPart parts"
    by (cases m) (auto simp: isMessage_def split: jsval.splits)
  then show ?thesis
    by (simp add: transformContent_def map_err_parts contentParts_def)
qed

lemma isMessage_role: "isMessage m \<Longrightarrow> get_prop m ''role'' = Inr (read_prop m ''role'')"
  by (cases m) (auto simp: isMessage_def get_prop_def)

text \<open>The loop over messages of the declared type, for any starting values of its two
  variables.\<close>

lemma processMessages_conforming:
  "list_all isMessage msgs \<Longrightarrow>
   processMessages pf sys acc msgs =
     Inr (if systemTexts msgs \<noteq> [] then last (systemTexts msgs) else sys,
          acc @ map rebuildMessage
                  (filter (\<lambda>m. hasRole ''user'' m \<or> hasRole ''assistant'' m) msgs))"
proof (induction msgs arbitrary: sys acc)
  case Nil
  then show ?case by (simp add: systemTexts_def)
next
  case (Cons m msgs)
  then have m: "isMessage m" and rest: "list_all isMessage msgs" by simp_all
  note IH = Cons.IH [OF rest]
  show ?case
    by (simp add: isMessage_role [OF m] systemContent_message [OF m]
        transformContent_message [OF m] IH hasRole_def systemTexts_def rebuildMessage_def)
qed

lemma toolOfEntry_eq: "toolOfEntry e = (if nullish e then Inl TypeError else Inr (entryTool e))"
  by (simp add: toolOfEntry_def get_prop_def entryTool_def)

lemma map_err_tools:
  "list_all (\<lambda>t. \<not> nullish t) ts \<Longrightarrow> map_err toolOfEntry ts = Inr (map entryTool ts)"
  by (induction ts) (auto simp: toolOfEntry_eq)

lemma transformTools_eq:
  "(case t of JArr ts \<Rightarrow> list_all (\<lambda>t. \<not> nullish t) ts | _ \<Rightarrow> True)
   \<Longrightarrow> transformTools t = Inr (toolsOut t)"
  by (cases t) (auto simp: transformTools_def toolsOut_def map_err_tools)

text \<open>On a request of the declared type without a null tool entry the transformation
  returns, and this is what it returns.\<close>

lemma transform_conforming:
  assumes "conforms request" and "noNullTools request"
  shows "transformRequestToBackendFormat pf request ov =
     Inr \<lparr>system = (if systemTexts (requestMessages request) \<noteq> []
                     then last (systemTexts (requestMessages request))
                     else (case ov of Some s \<Rightarrow> s | None \<Rightarrow> [])),
          tools = toolsOut (read_prop request ''tools''),
          messages = map rebuildMessage
            (filter (\<lambda>m. hasRole ''user'' m \<or> hasRole ''assistant'' m)
               (requestMessages request))\<rparr>"
proof -
  from assms(1) obtain msgs where m: "read_prop request ''messages'' = JArr msgs"
      and ms: "list_all isMessage msgs" and nn: "\<not> nullish request"
    by (cases request) (auto simp: conforms_def split: jsval.splits)
  from assms(2) have t: "transformTools (read_prop request ''tools'')
      = Inr (toolsOut (read_prop request ''tools''))"
    by (intro transformTools_eq) (simp add: noNullTools_def)
  show ?thesis
    by (simp add: transformRequestToBackendFormat_def get_prop_def nn m iterate_def
        processMessages_conforming [OF ms] t requestMessages_def)
qed

lemmas transform_eval =
  transformRequestToBackendFormat_def get_prop_def iterate_def systemContent_def
  transformContent_def transformPart_def isTextPart_def textOrEmpty_def transformTools_def
  toolOfEntry_def toolOfPair_def orEmptyObject_def opt_prop_def textPart_def message_def

lemma demoRequest_conforms: "conforms demoRequest \<and> noNullTools demoRequest"
  by (simp add: demoRequest_def conforms_def noNullTools_def isMessage_def isPart_def
      textPart_def message_def)

lemma demoRequest_transformed:
  "transformRequestToBackendFormat pf demoRequest ov =
     Inr \<lparr>system = ''AB'',
          tools = [JObj [(''name'', JStr ''search''), (''description'', JStr ''d''),
                         (''parameters'', JObj [])]],
          messages = [message ''user'' [textPart ''hi'']]\<rparr>"
  by (simp add: demoRequest_def transform_eval)

text \<open>
  C1, as the spec states it, fails: the override does not win. With the override \<^verbatim>\<open>"O"\<close>
  and a system message whose text parts are \<^verbatim>\<open>"A"\<close> and \<^verbatim>\<open>"B"\<close>, the output
  \<^verbatim>\<open>system\<close> is \<^verbatim>\<open>"AB"\<close>.
\<close>

theorem system_text_precedence_counterexample:
  "transformRequestToBackendFormat (host demoTable) demoRequest (Some ''O'') =
     Inr \<lparr>system = ''AB'',
          tools = [JObj [(''name'', JStr ''search''), (''description'', JStr ''d''),
                         (''parameters'', JObj [])]],
          messages = [message ''user'' [textPart ''hi'']]\<rparr>
   \<and> ''AB'' \<noteq> ''O''"
  by (simp add: demoRequest_transformed)

text \<open>
  C1, amended. For a request of the declared type (without a null tool entry, on which the
  transformation throws), the transformation returns, and the system messages of the input
  win over the override: \<^verbatim>\<open>system\<close> is the concatenated text of the text-typed parts of
  the last system-role message for which that text is not empty, when there is one; otherwise
  it is the override text when one is provided; otherwise it is empty.
\<close>

theorem system_text_precedence:
  assumes "conforms request" and "noNullTools request"
  shows "\<exists>out. transformRequestToBackendFormat pf request ov = Inr out
    \<and> system out =
        (if systemTexts (requestMessages request) \<noteq> []
         then last (systemTexts (requestMessages request))
         else (case ov of Some s \<Rightarrow> s | None \<Rightarrow> []))"
  by (simp add: transform_conforming [OF assms])

theorem system_text_precedence_witness:
  "conforms demoRequest \<and> noNullTools demoRequest
   \<and> systemTexts (requestMessages demoRequest) = [''AB'']
   \<and> transformRequestToBackendFormat (host demoTable) demoRequest None =
       Inr \<lparr>system = ''AB'',
            tools = [JObj [(''name'', JStr ''search''), (''description'', JStr ''d''),
                           (''parameters'', JObj [])]],
            messages = [message ''user'' [textPart ''hi'']]\<rparr>
   \<and> conforms (JObj [(''messages'', JArr [message ''user'' [textPart ''hi'']])])
   \<and> noNullTools (JObj [(''messages'', JArr [message ''user'' [textPart ''hi'']])])
   \<and> transformRequestToBackendFormat (host demoTable)
        (JObj [(''messages'', JArr [message ''user'' [textPart ''hi'']])]) (Some ''O'') =
       Inr \<lparr>system = ''O'', tools = [], messages = [message ''user'' [textPart ''hi'']]\<rparr>"
proof -
  have c2: "conforms (JObj [(''messages'', JArr [message ''user'' [textPart ''hi'']])])"
    and n2: "noNullTools (JObj [(''messages'', JArr [message ''user'' [textPart ''hi'']])])"
    by (simp_all add: conforms_def noNullTools_def isMessage_def isPart_def textPart_def
        message_def)
  have st: "systemTexts (requestMessages demoRequest) = [''AB'']"
    by (simp add: systemTexts_def requestMessages_def demoRequest_def hasRole_def systemText_def
        contentParts_def isText_def partText_def message_def textPart_def)
  have e2: "transformRequestToBackendFormat (host demoTable)
        (JObj [(''messages'', JArr [message ''user'' [textPart ''hi'']])]) (Some ''O'') =
       Inr \<lparr>system = ''O'', tools = [], messages = [message ''user'' [textPart ''hi'']]\<rparr>"
    by (simp add: transform_eval)
  from system_text_precedence [OF demoRequest_conforms [THEN conjunct1]
      demoRequest_conforms [THEN conjunct2], of "host demoTable" None]
    system_text_precedence [OF c2 n2, of "host demoTable" "Some ''O''"]
    demoRequest_conforms c2 n2 st e2
  show ?thesis by (simp add: demoRequest_transformed)
qed

text \<open>
  C9, as the spec states it, fails: a text-typed part does not pass through unchanged. A
  text part with a further key \<^verbatim>\<open>id\<close> comes out without that key.
\<close>

theorem output_messages_counterexample:
  "transformRequestToBackendFormat (host demoTable)
     (JObj [(''messages'', JArr [message ''user''
        [JObj [(''type'', JStr ''text''), (''text'', JStr ''hi''), (''id'', JStr ''7'')]]])])
     None
   = Inr \<lparr>system = [], tools = [],
          messages = [message ''user'' [JObj [(''type'', JStr ''text''), (''text'', JStr ''hi'')]]]\<rparr>
   \<and> JObj [(''type'', JStr ''text''), (''text'', JStr ''hi'')]
       \<noteq> JObj [(''type'', JStr ''text''), (''text'', JStr ''hi''), (''id'', JStr ''7'')]"
  by (simp add: transform_eval)

text \<open>
  C9, amended. For a request of the declared type (without a null tool entry), the
  transformation returns, and its message list has one message for each input message whose
  role is \<^verbatim>\<open>user\<close> or \<^verbatim>\<open>assistant\<close>, in input order, and none for any other role. Each
  output message has the role of its input message and, as content, the input parts in
  order, where a text-typed part is rebuilt from its type and its text alone (the empty text
  when it has none; any other key is dropped), so that a text part with exactly these two
  keys is unchanged, and a part of any other type is forwarded as it is.
\<close>

theorem output_messages:
  assumes "conforms request" and "noNullTools request"
  shows "\<exists>out. transformRequestToBackendFormat pf request ov = Inr out
    \<and> messages out =
        map rebuildMessage
          (filter (\<lambda>m. hasRole ''user'' m \<or> hasRole ''assistant'' m) (requestMessages request))
    \<and> (\<forall>p. \<not> isText p \<longrightarrow> rebuildPart p = p)
    \<and> (\<forall>s. rebuildPart (JObj [(''type'', JStr ''text''), (''text'', JStr s)])
            = JObj [(''type'', JStr ''text''), (''text'', JStr s)])"
  by (simp add: transform_conforming [OF assms] rebuildPart_def isText_def partText_def)

theorem output_messages_witness:
  "conforms demoRequest \<and> noNullTools demoRequest
   \<and> transformRequestToBackendFormat (host demoTable) demoRequest None =
       Inr \<lparr>system = ''AB'',
            tools = [JObj [(''name'', JStr ''search''), (''description'', JStr ''d''),
                           (''parameters'', JObj [])]],
            messages = [message ''user'' [textPart ''hi'']]\<rparr>
   \<and> map rebuildMessage
        (filter (\<lambda>m. hasRole ''user'' m \<or> hasRole ''assistant'' m) (requestMessages demoRequest))
       = [message ''user'' [textPart ''hi'']]"
proof -
  have "map rebuildMessage
        (filter (\<lambda>m. hasRole ''user'' m \<or> hasRole ''assistant'' m) (requestMessages demoRequest))
       = [message ''user'' [textPart ''hi'']]"
    by (simp add: requestMessages_def demoRequest_def hasRole_def rebuildMessage_def
        contentParts_def rebuildPart_def isText_def partText_def message_def textPart_def)
  with output_messages [OF demoRequest_conforms [THEN conjunct1]
      demoRequest_conforms [THEN conjunct2], of "host demoTable" None]
    demoRequest_conforms
  show ?thesis by (simp add: demoRequest_transformed)
qed


text \<open>
  C6, as the spec states it, fails: an entry of a \<^verbatim>\<open>tools\<close> array does not always map to
  a tool with the entry's name. The array branch computes \<^verbatim>\<open>tool.name || tool\<close>, so an
  entry without a name, here \<^verbatim>\<open>{description: "d"}\<close>, becomes a tool whose name is the
  entry itself.
\<close>

theorem output_tools_counterexample:
  "transformRequestToBackendFormat (host demoTable)
     (JObj [(''messages'', JArr []),
            (''tools'', JArr [JObj [(''description'', JStr ''d'')]])]) None
   = Inr \<lparr>system = [],
          tools = [JObj [(''name'', JObj [(''description'', JStr ''d'')]),
                         (''description'', JStr ''d''),
                         (''parameters'', JObj [])]],
          messages = []\<rparr>
   \<and> read_prop (JObj [(''description'', JStr ''d'')]) ''name'' = JUndefined
   \<and> JObj [(''description'', JStr ''d'')] \<noteq> JUndefined"
  by (simp add: transform_eval)

text \<open>The array branch reads \<^verbatim>\<open>tool.name\<close> without the \<^verbatim>\<open>?.\<close> of the keyed-mapping
  branch: a null entry of an array makes the transformation throw, and a null value of a
  mapping does not.\<close>

lemma null_tool_entry:
  "transformRequestToBackendFormat pf
     (JObj [(''messages'', JArr []), (''tools'', JArr [JNull])]) ov = Inl TypeError
   \<and> transformRequestToBackendFormat pf
     (JObj [(''messages'', JArr []), (''tools'', JObj [(''search'', JNull)])]) None
     = Inr \<lparr>system = [],
            tools = [JObj [(''name'', JStr ''search''), (''description'', JUndefined),
                           (''parameters'', JObj [])]],
            messages = []\<rparr>"
  by (simp add: transform_eval)

text \<open>
  C6, amended. For a request of the declared type whose \<^verbatim>\<open>tools\<close>, when an array, has no
  null or undefined entry, the transformation returns, and its \<^verbatim>\<open>tools\<close> is a list: empty
  when the input \<^verbatim>\<open>tools\<close> is absent, an empty array or an object without keys; for an
  object, one tool \<^verbatim>\<open>{name: key, description: value?.description, parameters:
  value?.parameters || {}}\<close> for each entry, in order; for an array, one tool for each entry,
  whose name is the entry's \<^verbatim>\<open>name\<close> when that is truthy and the entry itself otherwise,
  with the entry's \<^verbatim>\<open>description\<close> and \<^verbatim>\<open>parameters || {}\<close>, so that a bare string
  becomes a tool with that name. In particular \<^verbatim>\<open>{search: {description: "d"}}\<close> gives
  \<^verbatim>\<open>[{name: "search", description: "d", parameters: {}}]\<close>.
\<close>

theorem output_tools:
  assumes "conforms request" and "noNullTools request"
  shows "\<exists>out. transformRequestToBackendFormat pf request ov = Inr out
    \<and> (read_prop request ''tools'' = JUndefined \<or> read_prop request ''tools'' = JArr []
         \<or> read_prop request ''tools'' = JObj [] \<longrightarrow> tools out = [])
    \<and> (\<forall>kvs. read_prop request ''tools'' = JObj kvs \<longrightarrow>
          tools out = map (\<lambda>(k, v).
             JObj [(''name'', JStr k), (''description'', opt_prop v ''description''),
                   (''parameters'', orEmptyObject (opt_prop v ''parameters''))]) kvs)
    \<and> (\<forall>ts. read_prop request ''tools'' = JArr ts \<longrightarrow>
          tools out = map (\<lambda>e.
             JObj [(''name'', if truthy (read_prop e ''name'') then read_prop e ''name'' else e),
                   (''description'', read_prop e ''description''),
                   (''parameters'', orEmptyObject (read_prop e ''parameters''))]) ts
          \<and> (\<forall>i s. i < length ts \<and> ts ! i = JStr s \<longrightarrow>
                tools out ! i = JObj [(''name'', JStr s), (''description'', JUndefined),
                                      (''parameters'', JObj [])]))
    \<and> (\<forall>d. read_prop request ''tools'' = JObj [(''search'', JObj [(''description'', JStr d)])] \<longrightarrow>
          tools out = [JObj [(''name'', JStr ''search''), (''description'', JStr d),
                             (''parameters'', JObj [])]])"
proof -
  have str: "entryTool (JStr s) = JObj [(''name'', JStr s), (''description'', JUndefined),
                                      (''parameters'', JObj [])]" for s
    by (simp add: entryTool_def orEmptyObject_def)
  have pair: "toolOfPair = (\<lambda>(k, v).
             JObj [(''name'', JStr k), (''description'', opt_prop v ''description''),
                   (''parameters'', orEmptyObject (opt_prop v ''parameters''))])"
    by (auto simp: toolOfPair_def)
  have entry: "entryTool = (\<lambda>e.
             JObj [(''name'', if truthy (read_prop e ''name'') then read_prop e ''name'' else e),
                   (''description'', read_prop e ''description''),
                   (''parameters'', orEmptyObject (read_prop e ''parameters''))])"
    by (auto simp: entryTool_def)
  let ?t = "read_prop request ''tools''"
  have 1: "?t = JUndefined \<or> ?t = JArr [] \<or> ?t = JObj [] \<longrightarrow> toolsOut ?t = []"
    by (auto simp: toolsOut_def)
  have 2: "\<forall>kvs. ?t = JObj kvs \<longrightarrow>
          toolsOut ?t = map (\<lambda>(k, v).
             JObj [(''name'', JStr k), (''description'', opt_prop v ''description''),
                   (''parameters'', orEmptyObject (opt_prop v ''parameters''))]) kvs"
    by (simp add: toolsOut_def pair)
  have 3: "\<forall>ts. ?t = JArr ts \<longrightarrow>
          toolsOut ?t = map (\<lambda>e.
             JObj [(''name'', if truthy (read_prop e ''name'') then read_prop e ''name'' else e),
                   (''description'', read_prop e ''description''),
                   (''parameters'', orEmptyObject (read_prop e ''parameters''))]) ts
          \<and> (\<forall>i s. i < length ts \<and> ts ! i = JStr s \<longrightarrow>
                toolsOut ?t ! i = JObj [(''name'', JStr s), (''description'', JUndefined),
                                      (''parameters'', JObj [])])"
    by (auto simp: toolsOut_def entry [symmetric] str)
  have 4: "\<forall>d. ?t = JObj [(''search'', JObj [(''description'', JStr d)])] \<longrightarrow>
          toolsOut ?t = [JObj [(''name'', JStr ''search''), (''description'', JStr d),
                             (''parameters'', JObj [])]]"
    by (simp add: toolsOut_def toolOfPair_def opt_prop_def orEmptyObject_def)
  let ?out = "\<lparr>system = (if systemTexts (requestMessages request) \<noteq> []
                     then last (systemTexts (requestMessages request))
                     else (case ov of Some s \<Rightarrow> s | None \<Rightarrow> [])),
          tools = toolsOut ?t,
          messages = map rebuildMessage
            (filter (\<lambda>m. hasRole ''user'' m \<or> hasRole ''assistant'' m)
               (requestMessages request))\<rparr>"
  have tl: "tools ?out = toolsOut ?t" by simp
  show ?thesis
  proof (intro exI conjI)
    show "transformRequestToBackendFormat pf request ov = Inr ?out"
      by (rule transform_conforming [OF assms])
  qed (unfold tl, rule 1, rule 2, rule 3, rule 4)
qed

theorem output_tools_witness:
  "conforms demoRequest \<and> noNullTools demoRequest
   \<and> read_prop demoRequest ''tools'' = JObj [(''search'', JObj [(''description'', JStr ''d'')])]
   \<and> transformRequestToBackendFormat (host demoTable) demoRequest None =
       Inr \<lparr>system = ''AB'',
            tools = [JObj [(''name'', JStr ''search''), (''description'', JStr ''d''),
                           (''parameters'', JObj [])]],
            messages = [message ''user'' [textPart ''hi'']]\<rparr>
   \<and> conforms (JObj [(''messages'', JArr []), (''tools'', JArr [JStr ''search''])])
   \<and> noNullTools (JObj [(''messages'', JArr []), (''tools'', JArr [JStr ''search''])])
   \<and> transformRequestToBackendFormat (host demoTable)
        (JObj [(''messages'', JArr []), (''tools'', JArr [JStr ''search''])]) None =
       Inr \<lparr>system = [],
            tools = [JObj [(''name'', JStr ''search''), (''description'', JUndefined),
                           (''parameters'', JObj [])]],
            messages = []\<rparr>
   \<and> conforms (JObj [(''messages'', JArr []), (''tools'', JObj [])])
   \<and> noNullTools (JObj [(''messages'', JArr []), (''tools'', JObj [])])
   \<and> transformRequestToBackendFormat (host demoTable)
        (JObj [(''messages'', JArr []), (''tools'', JObj [])]) None =
       Inr \<lparr>system = [], tools = [], messages = []\<rparr>"
proof -
  have c2: "conforms (JObj [(''messages'', JArr []), (''tools'', JArr [JStr ''search''])])"
    and n2: "noNullTools (JObj [(''messages'', JArr []), (''tools'', JArr [JStr ''search''])])"
    and c3: "conforms (JObj [(''messages'', JArr []), (''tools'', JObj [])])"
    and n3: "noNullTools (JObj [(''messages'', JArr []), (''tools'', JObj [])])"
    by (simp_all add: conforms_def noNullTools_def)
  have t: "read_prop demoRequest ''tools'' = JObj [(''search'', JObj [(''description'', JStr ''d'')])]"
    by (simp add: demoRequest_def)
  have e2: "transformRequestToBackendFormat (host demoTable)
        (JObj [(''messages'', JArr []), (''tools'', JArr [JStr ''search''])]) None =
       Inr \<lparr>system = [],
            tools = [JObj [(''name'', JStr ''search''), (''description'', JUndefined),
                           (''parameters'', JObj [])]],
            messages = []\<rparr>"
    by (simp add: transform_eval)
  have e3: "transformRequestToBackendFormat (host demoTable)
        (JObj [(''messages'', JArr []), (''tools'', JObj [])]) None =
       Inr \<lparr>system = [], tools = [], messages = []\<rparr>"
    by (simp add: transform_eval)
  from output_tools [OF demoRequest_conforms [THEN conjunct1]
      demoRequest_conforms [THEN conjunct2], of "host demoTable" None]
    output_tools [OF c2 n2, of "host demoTable" None]
    output_tools [OF c3 n3, of "host demoTable" None]
    demoRequest_conforms c2 n2 c3 n3 t e2 e3
  show ?thesis by (simp add: demoRequest_transformed)
qed

section \<open>Properties of the fetch interceptor\<close>

text \<open>
  C2. The cleanup function returned by \<^verbatim>\<open>createFetchInterceptor\<close> sets \<^verbatim>\<open>window.fetch\<close>
  to the function that was installed when the interceptor was created, whatever is
  installed when the cleanup runs, and changes nothing else; running it a second time
  changes nothing. The installation itself puts a new wrapper around that function.
\<close>

theorem cleanup_restores_captured_fetch:
  "fetch (fst (createFetchInterceptor e h s w) w') = fetch w
   \<and> fst (createFetchInterceptor e h s w) (fst (createFetchInterceptor e h s w) w')
       = fst (createFetchInterceptor e h s w) w'
   \<and> nextClosure (fst (createFetchInterceptor e h s w) w') = nextClosure w'
   \<and> fetch (snd (createFetchInterceptor e h s w))
       = Wrapper (nextClosure w) \<lparr>apiEndpoint = e, adapterHeaders = h, systemMessage = s\<rparr> (fetch w)"
  by (simp add: createFetchInterceptor_def Let_def)

theorem cleanup_restores_captured_fetch_witness:
  "fetch (fst (createFetchInterceptor ''/a'' Map.empty None \<lparr>fetch = External 0, nextClosure = 0\<rparr>)
       (snd (createFetchInterceptor ''/b'' Map.empty None
          (snd (createFetchInterceptor ''/a'' Map.empty None \<lparr>fetch = External 0, nextClosure = 0\<rparr>)))))
     = External 0"
  using cleanup_restores_captured_fetch [of "''/a''" Map.empty None
      "\<lparr>fetch = External 0, nextClosure = 0\<rparr>"
      "snd (createFetchInterceptor ''/b'' Map.empty None
          (snd (createFetchInterceptor ''/a'' Map.empty None \<lparr>fetch = External 0, nextClosure = 0\<rparr>)))"]
  by simp

lemma demo_rewrite:
  "rewriteBody (host demoTable) demoAdapter (demoInit h) = Rewritten emptyBackendText"
  by (simp add: rewriteBody_def demoInit_def transformedBody_def transform_eval backendJson_def
      host_def demoTable_def demoAdapter_def planText_def updateText_def stepText_def
      quoted_def planValue_def updateValue_def createText_def)

text \<open>
  C4, as the spec states it, fails: the content type of a rewritten call is not fixed. A
  call whose own headers carry \<^verbatim>\<open>Content-Type: text/plain\<close> goes out with a rewritten
  body and with that content type.
\<close>

theorem rewritten_call_headers_counterexample:
  "rewriteBody (host demoTable) demoAdapter (demoInit [''Content-Type'' \<mapsto> JStr ''text/plain''])
     = Rewritten emptyBackendText
   \<and> interceptCall (host demoTable) demoAdapter (InputString ''/api/chat'')
       (Some (demoInit [''Content-Type'' \<mapsto> JStr ''text/plain''])) =
      (InputString ''/api/chat'',
       Some ((demoInit [''Content-Type'' \<mapsto> JStr ''text/plain''])
          \<lparr>body := Some (BodyString emptyBackendText),
           headers := Some (HeadersRecord
             (mergedHeaders demoAdapter (demoInit [''Content-Type'' \<mapsto> JStr ''text/plain''])))\<rparr>))
   \<and> mergedHeaders demoAdapter (demoInit [''Content-Type'' \<mapsto> JStr ''text/plain'']) ''Content-Type''
       = Some (JStr ''text/plain'')
   \<and> JStr ''text/plain'' \<noteq> JStr ''application/json''"
  by (simp add: demo_rewrite interceptCall_def)
     (simp add: demoInit_def demoAdapter_def mergedHeaders_def)

text \<open>
  C4, amended. For a POST call to the endpoint whose body is rewritten, the call goes out
  with the new body and a header record that merges, in this order, the entry
  \<^verbatim>\<open>Content-Type: application/json\<close>, the adapter-configuration headers and the own
  enumerable properties of the call's headers (the entries of a plain record), a later one
  taking precedence on a key: a key has the value from the call's headers when it is there,
  else the value from the configuration when it is there, and \<^verbatim>\<open>Content-Type\<close> is
  \<^verbatim>\<open>application/json\<close> when neither carries that key.
\<close>

theorem rewritten_call_headers:
  assumes "http_method i = Some ''POST''" and "str_includes (inputUrl input) (apiEndpoint cfg)"
    and "rewriteBody pf cfg i = Rewritten b"
  shows "interceptCall pf cfg input (Some i) =
      (input, Some (i\<lparr>body := Some (BodyString b),
                       headers := Some (HeadersRecord (mergedHeaders cfg i))\<rparr>))
    \<and> (\<forall>k. mergedHeaders cfg i k =
          (case (case headers i of None \<Rightarrow> None | Some h \<Rightarrow> ownProps h k) of
             Some v \<Rightarrow> Some v
           | None \<Rightarrow>
               (case adapterHeaders cfg k of
                  Some v \<Rightarrow> Some (JStr v)
                | None \<Rightarrow> if k = ''Content-Type'' then Some (JStr ''application/json'')
                           else None)))"
  using assms
  by (auto simp: interceptCall_def mergedHeaders_def map_add_def split: option.splits)

theorem rewritten_call_headers_witness:
  "http_method (demoInit [''Authorization'' \<mapsto> JStr ''Bearer call'']) = Some ''POST''
   \<and> str_includes (inputUrl (InputString ''http://localhost/api/chat'')) (apiEndpoint demoAdapter)
   \<and> rewriteBody (host demoTable) demoAdapter (demoInit [''Authorization'' \<mapsto> JStr ''Bearer call''])
       = Rewritten emptyBackendText
   \<and> mergedHeaders demoAdapter (demoInit [''Authorization'' \<mapsto> JStr ''Bearer call''])
        ''Authorization'' = Some (JStr ''Bearer call'')
   \<and> mergedHeaders demoAdapter (demoInit [''Authorization'' \<mapsto> JStr ''Bearer call''])
        ''X-App'' = Some (JStr ''a'')
   \<and> mergedHeaders demoAdapter (demoInit [''Authorization'' \<mapsto> JStr ''Bearer call''])
        ''Content-Type'' = Some (JStr ''application/json'')
   \<and> interceptCall (host demoTable) demoAdapter (InputString ''http://localhost/api/chat'')
       (Some (demoInit [''Authorization'' \<mapsto> JStr ''Bearer call''])) =
      (InputString ''http://localhost/api/chat'',
       Some ((demoInit [''Authorization'' \<mapsto> JStr ''Bearer call''])
          \<lparr>body := Some (BodyString emptyBackendText),
           headers := Some (HeadersRecord
             (mergedHeaders demoAdapter (demoInit [''Authorization'' \<mapsto> JStr ''Bearer call''])))\<rparr>))"
proof -
  have h1: "http_method (demoInit [''Authorization'' \<mapsto> JStr ''Bearer call'']) = Some ''POST''"
    by (simp add: demoInit_def)
  have h2: "str_includes (inputUrl (InputString ''http://localhost/api/chat''))
      (apiEndpoint demoAdapter)"
    by (simp add: demoAdapter_def)
  note T = rewritten_call_headers [OF h1 h2 demo_rewrite]
  have m: "mergedHeaders demoAdapter (demoInit [''Authorization'' \<mapsto> JStr ''Bearer call''])
        ''Authorization'' = Some (JStr ''Bearer call'')
   \<and> mergedHeaders demoAdapter (demoInit [''Authorization'' \<mapsto> JStr ''Bearer call''])
        ''X-App'' = Some (JStr ''a'')
   \<and> mergedHeaders demoAdapter (demoInit [''Authorization'' \<mapsto> JStr ''Bearer call''])
        ''Content-Type'' = Some (JStr ''application/json'')"
    by (simp only: T [THEN conjunct2, rule_format]) (simp add: demoInit_def demoAdapter_def)
  from T h1 h2 m demo_rewrite show ?thesis by blast
qed

end
